theory Spec2Isabelle
  imports Main
begin

section \<open>Values of the Python run time\<close>

text \<open>
  Both scripts work on what \<^verbatim>\<open>response.json()\<close> returns: \<^verbatim>\<open>None\<close>, booleans, integers,
  floats, strings, lists and dictionaries. A float is never used in arithmetic by either
  script: it is only tested for truth and printed. \<open>JFloat nz s\<close> therefore carries
  whether the float is non-zero and the text \<^verbatim>\<open>str()\<close> gives for it. A dictionary is the
  list of its items in insertion order; a lookup takes the first item with the key (a
  parsed dictionary has each key once). A character stands for one code point below 256.
\<close>

datatype json =
    JNull
  | JBool bool
  | JInt int
  | JFloat bool string
  | JStr string
  | JArr "json list"
  | JObj "(string \<times> json) list"

text \<open>
  The exceptions the scripts can run into, named by the operation that raises:
  \<open>NoAttribute m\<close> is the AttributeError of a value that has no method \<open>m\<close>,
  \<open>NotSized\<close> the TypeError of \<^verbatim>\<open>len\<close>, \<open>BadSubscript\<close> what \<^verbatim>\<open>v[...]\<close> raises
  (TypeError, KeyError or IndexError), \<open>NotIterable\<close> the TypeError of a \<^verbatim>\<open>for\<close> loop,
  \<open>DecodeError\<close> a body that is not JSON, \<open>TransportError\<close> a request that got no
  response.
\<close>

datatype exn =
    NoAttribute string
  | NotSized
  | BadSubscript
  | NotIterable
  | DecodeError
  | TransportError

subsection \<open>Text of a value: \<^verbatim>\<open>str\<close> and \<^verbatim>\<open>repr\<close>\<close>

definition digit_char :: "nat \<Rightarrow> char" where
  "digit_char d = ''0123456789abcdef'' ! d"

fun dec_nat :: "nat \<Rightarrow> string" where
  "dec_nat n = (if n < 10 then [digit_char n] else dec_nat (n div 10) @ [digit_char (n mod 10)])"

declare dec_nat.simps [simp del]

definition dec_int :: "int \<Rightarrow> string" where
  "dec_int i = (if i < 0 then CHR ''-'' # dec_nat (nat (- i)) else dec_nat (nat i))"

fun join :: "string \<Rightarrow> string list \<Rightarrow> string" where
  "join sep [] = []"
| "join sep [x] = x"
| "join sep (x # y # ys) = x @ sep @ join sep (y # ys)"

definition printable :: "char \<Rightarrow> bool" where
  "printable c = (let n = of_char c :: nat in (32 \<le> n \<and> n < 127) \<or> (161 \<le> n \<and> n \<noteq> 173))"

definition repr_char :: "char \<Rightarrow> char \<Rightarrow> string" where
  "repr_char quote c =
     (if c = quote \<or> c = CHR 0x5C then [CHR 0x5C, c]
      else if c = CHR 0x09 then [CHR 0x5C, CHR ''t'']
      else if c = CHR 0x0A then [CHR 0x5C, CHR ''n'']
      else if c = CHR 0x0D then [CHR 0x5C, CHR ''r'']
      else if printable c then [c]
      else [CHR 0x5C, CHR ''x'', digit_char (of_char c div 16), digit_char (of_char c mod 16)])"

definition repr_str :: "string \<Rightarrow> string" where
  "repr_str s =
     (let quote = (if CHR 0x27 \<in> set s \<and> CHR 0x22 \<notin> set s then CHR 0x22 else CHR 0x27)
      in quote # concat (map (repr_char quote) s) @ [quote])"

fun py_repr :: "json \<Rightarrow> string" where
  "py_repr JNull = ''None''"
| "py_repr (JBool b) = (if b then ''True'' else ''False'')"
| "py_repr (JInt i) = dec_int i"
| "py_repr (JFloat nz s) = s"
| "py_repr (JStr s) = repr_str s"
| "py_repr (JArr xs) = ''['' @ join '', '' (map py_repr xs) @ '']''"
| "py_repr (JObj kvs) =
     ''{'' @ join '', '' (map (\<lambda>kv. repr_str (fst kv) @ '': '' @ py_repr (snd kv)) kvs) @ ''}''"

text \<open>What an f-string puts for \<^verbatim>\<open>{v}\<close>, and what \<^verbatim>\<open>str(v)\<close> returns.\<close>

fun py_str :: "json \<Rightarrow> string" where
  "py_str (JStr s) = s"
| "py_str v = py_repr v"

subsection \<open>Truth, \<^verbatim>\<open>get\<close>, \<^verbatim>\<open>len\<close>, slices, subscripts and iteration\<close>

fun truthy :: "json \<Rightarrow> bool" where
  "truthy JNull = False"
| "truthy (JBool b) = b"
| "truthy (JInt i) = (i \<noteq> 0)"
| "truthy (JFloat nz s) = nz"
| "truthy (JStr s) = (s \<noteq> [])"
| "truthy (JArr xs) = (xs \<noteq> [])"
| "truthy (JObj kvs) = (kvs \<noteq> [])"

text \<open>\<^verbatim>\<open>v.get(k, d)\<close>: only a dictionary has the method.\<close>

fun py_get :: "json \<Rightarrow> string \<Rightarrow> json \<Rightarrow> exn + json" where
  "py_get (JObj kvs) k d = Inr (case map_of kvs k of Some v \<Rightarrow> v | None \<Rightarrow> d)"
| "py_get v k d = Inl (NoAttribute ''get'')"

fun py_len :: "json \<Rightarrow> exn + nat" where
  "py_len (JStr s) = Inr (length s)"
| "py_len (JArr xs) = Inr (length xs)"
| "py_len (JObj kvs) = Inr (length kvs)"
| "py_len v = Inl NotSized"

text \<open>\<^verbatim>\<open>v[:n]\<close> for a literal \<open>n\<close>.\<close>

fun py_slice :: "json \<Rightarrow> nat \<Rightarrow> exn + json" where
  "py_slice (JStr s) n = Inr (JStr (take n s))"
| "py_slice (JArr xs) n = Inr (JArr (take n xs))"
| "py_slice v n = Inl BadSubscript"

text \<open>\<^verbatim>\<open>v[0]\<close>: a dictionary parsed from JSON has string keys only, so the key 0 is missing.\<close>

fun py_first :: "json \<Rightarrow> exn + json" where
  "py_first (JStr s) = (case s of [] \<Rightarrow> Inl BadSubscript | c # cs \<Rightarrow> Inr (JStr [c]))"
| "py_first (JArr xs) = (case xs of [] \<Rightarrow> Inl BadSubscript | x # ys \<Rightarrow> Inr x)"
| "py_first v = Inl BadSubscript"

text \<open>The items a \<^verbatim>\<open>for\<close> loop visits.\<close>

fun py_iter :: "json \<Rightarrow> exn + json list" where
  "py_iter (JStr s) = Inr (map (\<lambda>c. JStr [c]) s)"
| "py_iter (JArr xs) = Inr xs"
| "py_iter (JObj kvs) = Inr (map (\<lambda>kv. JStr (fst kv)) kvs)"
| "py_iter v = Inl NotIterable"

section \<open>Running statements: printed lines and the exception that stops them\<close>

text \<open>
  A run of statements gives the arguments of its \<^verbatim>\<open>print\<close> calls, in order, and what
  stopped it, if anything did: an exception nobody catches, or the call \<^verbatim>\<open>exit(n)\<close>.
  \<open>nl\<close> is the line feed inside a printed argument.
\<close>

datatype stop = Raised exn | Exit int

type_synonym out = "string list \<times> stop option"

definition nl :: char where
  "nl = CHR 0x0A"

definition py_print :: "string \<Rightarrow> out" where
  "py_print s = ([s], None)"

definition py_raise :: "exn \<Rightarrow> out" where
  "py_raise e = ([], Some (Raised e))"

definition py_exit :: "int \<Rightarrow> out" where
  "py_exit n = ([], Some (Exit n))"

definition skip :: out where
  "skip = ([], None)"

definition seq :: "out \<Rightarrow> out \<Rightarrow> out" where
  "seq a b = (case snd a of Some e \<Rightarrow> a | None \<Rightarrow> (fst a @ fst b, snd b))"

fun block :: "out list \<Rightarrow> out" where
  "block [] = skip"
| "block (a # as) = seq a (block as)"

text \<open>An expression that may raise, and the statement that uses its value.\<close>

definition with_val :: "exn + 'a \<Rightarrow> ('a \<Rightarrow> out) \<Rightarrow> out" where
  "with_val r f = (case r of Inl e \<Rightarrow> py_raise e | Inr v \<Rightarrow> f v)"

text \<open>\<^verbatim>\<open>for i, x in enumerate(xs, i0): body\<close>\<close>

fun for_each :: "(nat \<Rightarrow> json \<Rightarrow> out) \<Rightarrow> nat \<Rightarrow> json list \<Rightarrow> out" where
  "for_each body i [] = skip"
| "for_each body i (x # xs) = seq (body i x) (for_each body (Suc i) xs)"

section \<open>The HTTP collaborator\<close>

datatype http_method = GET | POST

record request =
  req_method :: http_method
  url :: string
  headers :: "(string \<times> string option) list"
  req_body :: "json option"

text \<open>
  A response: its status code, its raw body, and what \<^verbatim>\<open>response.json()\<close> returns
  (\<open>None\<close> when the body is not JSON and the call raises).
\<close>

record response =
  status_code :: int
  resp_text :: string
  resp_json :: "json option"

type_synonym transport = "request \<Rightarrow> exn + response"

text \<open>\<^verbatim>\<open>response.json()\<close>\<close>

definition json_of :: "response \<Rightarrow> exn + json" where
  "json_of r = (case resp_json r of None \<Rightarrow> Inl DecodeError | Some v \<Rightarrow> Inr v)"

section \<open>check\_indexer\_warnings.py\<close>

text \<open>
  The settings object of \<^verbatim>\<open>config.settings\<close> is not part of the sources at hand; the
  two attributes the script reads are taken as parameters.
\<close>

record settings =
  search_endpoint :: string
  search_api_key :: string

definition status_request :: "settings \<Rightarrow> string \<Rightarrow> request" where
  "status_request config indexer_name =
     \<lparr> req_method = GET,
       url = search_endpoint config @ ''/indexers/'' @ indexer_name @ ''/status?api-version='' @ ''2024-07-01'',
       headers = [(''Content-Type'', Some ''application/json''), (''api-key'', Some (search_api_key config))],
       req_body = None \<rparr>"

text \<open>The body of the loop over \<^verbatim>\<open>errors[:10]\<close>.\<close>

definition print_error :: "nat \<Rightarrow> json \<Rightarrow> out" where
  "print_error i error =
     block
      [with_val (py_get error ''errorMessage'' (JStr ''Unknown error''))
         (\<lambda>m. py_print (''    '' @ dec_nat i @ ''. '' @ py_str m)),
       with_val (py_get error ''key'' (JStr ''N/A''))
         (\<lambda>k. py_print (''       Key: '' @ py_str k)),
       with_val (py_get error ''name'' (JStr ''N/A''))
         (\<lambda>n. py_print (''       Name: '' @ py_str n))]"

definition errors_block :: "json \<Rightarrow> out" where
  "errors_block last_result =
     with_val (py_get last_result ''errors'' (JArr [])) (\<lambda>errors.
       if truthy errors then
         block
          [with_val (py_len errors)
             (\<lambda>n. py_print (nl # ''  ERRORS ('' @ dec_nat n @ ''):'')),
           with_val (py_slice errors 10) (\<lambda>s. with_val (py_iter s) (for_each print_error 1))]
       else skip)"

text \<open>The body of the loop over \<^verbatim>\<open>warnings[:20]\<close>.\<close>

definition print_warning :: "nat \<Rightarrow> json \<Rightarrow> out" where
  "print_warning i warning =
     block
      [with_val (py_get warning ''message'' (JStr ''Unknown warning''))
         (\<lambda>m. py_print (''    '' @ dec_nat i @ ''. '' @ py_str m)),
       with_val (py_get warning ''key'' (JStr ''N/A''))
         (\<lambda>k. py_print (''       Key: '' @ py_str k)),
       with_val (py_get warning ''name'' (JStr ''N/A''))
         (\<lambda>n. py_print (''       Name: '' @ py_str n)),
       with_val (py_get warning ''details'' (JStr ''N/A''))
         (\<lambda>d. py_print (''       Details: '' @ py_str d)),
       py_print []]"

definition warnings_block :: "json \<Rightarrow> out" where
  "warnings_block last_result =
     with_val (py_get last_result ''warnings'' (JArr [])) (\<lambda>warnings.
       if truthy warnings then
         block
          [with_val (py_len warnings)
             (\<lambda>n. py_print (nl # ''  WARNINGS ('' @ dec_nat n @ ''):'')),
           with_val (py_slice warnings 20) (\<lambda>s. with_val (py_iter s) (for_each print_warning 1))]
       else skip)"

text \<open>Lines 32 to 57: the most recent run.\<close>

definition last_run_section :: "json \<Rightarrow> out" where
  "last_run_section status_data =
     with_val (py_get status_data ''lastResult'' (JObj [])) (\<lambda>last_result.
       if truthy last_result then
         block
          [py_print (nl # ''Last Run:''),
           with_val (py_get last_result ''status'' JNull)
             (\<lambda>s. py_print (''  Status: '' @ py_str s)),
           with_val (py_get last_result ''itemsProcessed'' (JInt 0))
             (\<lambda>n. py_print (''  Items Processed: '' @ py_str n)),
           with_val (py_get last_result ''itemsFailed'' (JInt 0))
             (\<lambda>n. py_print (''  Items Failed: '' @ py_str n)),
           errors_block last_result,
           warnings_block last_result]
       else skip)"

text \<open>The body of the loop over \<^verbatim>\<open>warnings[:5]\<close> of the execution history.\<close>

definition print_recent_warning :: "nat \<Rightarrow> json \<Rightarrow> out" where
  "print_recent_warning i warning =
     with_val (py_get warning ''message'' (JStr ''Unknown''))
       (\<lambda>m. py_print (''  '' @ dec_nat i @ ''. '' @ py_str m))"

text \<open>Lines 60 to 69: the execution history.\<close>

definition history_section :: "json \<Rightarrow> out" where
  "history_section status_data =
     with_val (py_get status_data ''executionHistory'' (JArr [])) (\<lambda>history.
       with_val (if truthy history
                 then (case py_len history of Inl e \<Rightarrow> Inl e | Inr n \<Rightarrow> Inr (1 < n))
                 else Inr False) (\<lambda>c.
         if c then
           block
            [py_print (nl # ''=== Recent Execution ===''),
             with_val (py_first history) (\<lambda>recent.
               block
                [with_val (py_get recent ''status'' JNull)
                   (\<lambda>s. py_print (''Status: '' @ py_str s)),
                 with_val (py_get recent ''warnings'' (JArr [])) (\<lambda>warnings.
                   if truthy warnings then
                     block
                      [with_val (py_len warnings)
                         (\<lambda>n. py_print (''Warnings in this run: '' @ dec_nat n)),
                       with_val (py_slice warnings 5)
                         (\<lambda>s. with_val (py_iter s) (for_each print_recent_warning 1))]
                   else skip)])]
         else skip))"

text \<open>The statements of the 200 branch, lines 29 to 69.\<close>

definition report :: "string \<Rightarrow> json \<Rightarrow> out" where
  "report indexer_name status_data =
     block
      [py_print (nl # ''=== Indexer: '' @ indexer_name @ '' ===''),
       with_val (py_get status_data ''status'' JNull)
         (\<lambda>s. py_print (''Status: '' @ py_str s)),
       last_run_section status_data,
       history_section status_data]"

text \<open>
  The function returns the parsed payload, or \<^verbatim>\<open>None\<close> (\<open>Inr None\<close>), or ends in an
  exception (\<open>Inl\<close>); the first component is what it has printed by then.
\<close>

definition get_indexer_status_details ::
  "settings \<Rightarrow> transport \<Rightarrow> string \<Rightarrow> string list \<times> (stop + json option)" where
  "get_indexer_status_details config http indexer_name =
     (case http (status_request config indexer_name) of
        Inl e \<Rightarrow> ([], Inl (Raised e))
      | Inr response \<Rightarrow>
          if status_code response = 200 then
            (case json_of response of
               Inl e \<Rightarrow> ([], Inl (Raised e))
             | Inr status_data \<Rightarrow>
                 (case report indexer_name status_data of
                    (printed, Some e) \<Rightarrow> (printed, Inl e)
                  | (printed, None) \<Rightarrow> (printed, Inr (Some status_data))))
          else
            ([''Error: '' @ dec_int (status_code response), resp_text response], Inr None))"

text \<open>The script: the indexer name is the first argument, or a fixed default.\<close>

definition indexer_main ::
  "settings \<Rightarrow> transport \<Rightarrow> string list \<Rightarrow> string list \<times> (stop + json option)" where
  "indexer_main config http argv =
     get_indexer_status_details config http
       (if 1 < length argv then argv ! 1 else ''pp-dev-navi-bki-code-ix'')"

section \<open>check\_index.py\<close>

text \<open>
  The script reads two environment variables, each absent or a string, and runs three
  sections in turn. The two symbols it prints that lie beyond code point 255 are written
  as the bytes of their UTF-8 encoding.
\<close>

record environment =
  SEARCH_ENDPOINT :: "string option"
  SEARCH_API_KEY :: "string option"

definition INDEX_NAME :: string where
  "INDEX_NAME = ''idx-score-operatorsupport''"

definition opt_str :: "string option \<Rightarrow> string" where
  "opt_str v = (case v of None \<Rightarrow> ''None'' | Some s \<Rightarrow> s)"

definition index_headers :: "environment \<Rightarrow> (string \<times> string option) list" where
  "index_headers env = [(''api-key'', SEARCH_API_KEY env), (''Content-Type'', Some ''application/json'')]"

definition stats_request :: "environment \<Rightarrow> request" where
  "stats_request env =
     \<lparr> req_method = GET,
       url = opt_str (SEARCH_ENDPOINT env) @ ''/indexes/'' @ INDEX_NAME @ ''/stats?api-version=2024-07-01'',
       headers = index_headers env,
       req_body = None \<rparr>"

definition search_url :: "environment \<Rightarrow> string" where
  "search_url env =
     opt_str (SEARCH_ENDPOINT env) @ ''/indexes/'' @ INDEX_NAME @ ''/docs/search?api-version=2024-07-01''"

definition search_body :: json where
  "search_body = JObj [(''search'', JStr ''*''), (''top'', JInt 3)]"

definition vector_search_body :: json where
  "vector_search_body =
     JObj [(''vectorQueries'',
            JArr [JObj [(''kind'', JStr ''text''),
                        (''text'', JStr ''NCEMS integration requirements''),
                        (''fields'', JStr ''content_vector''),
                        (''k'', JInt 3)]]),
           (''select'', JStr ''title,source_url'')]"

definition search_request :: "environment \<Rightarrow> request" where
  "search_request env =
     \<lparr> req_method = POST, url = search_url env, headers = index_headers env,
       req_body = Some search_body \<rparr>"

definition vector_request :: "environment \<Rightarrow> request" where
  "vector_request env =
     \<lparr> req_method = POST, url = search_url env, headers = index_headers env,
       req_body = Some vector_search_body \<rparr>"

definition check_mark :: string where
  "check_mark = [CHR 0xE2, CHR 0x9C, CHR 0x85]"

definition cross_mark :: string where
  "cross_mark = [CHR 0xE2, CHR 0x9D, CHR 0x8C]"

text \<open>Lines 21 to 34: the index statistics.\<close>

definition stats_section :: "environment \<Rightarrow> transport \<Rightarrow> out" where
  "stats_section env http =
     block
      [py_print (''=== Index Statistics for '' @ INDEX_NAME @ '' ==='' @ [nl]),
       with_val (http (stats_request env)) (\<lambda>stats_response.
         if status_code stats_response = 200 then
           with_val (json_of stats_response) (\<lambda>stats.
             block
              [with_val (py_get stats ''documentCount'' (JInt 0))
                 (\<lambda>v. py_print (''Document Count: '' @ py_str v)),
               with_val (py_get stats ''storageSize'' (JInt 0))
                 (\<lambda>v. py_print (''Storage Size: '' @ py_str v @ '' bytes'')),
               with_val (py_get stats ''vectorIndexSize'' (JInt 0))
                 (\<lambda>v. py_print (''Vector Index Size: '' @ py_str v @ '' bytes'')),
               py_print []])
         else
           block
            [py_print (''Error getting stats: '' @ dec_int (status_code stats_response)),
             py_print (resp_text stats_response),
             py_exit 1])]"

text \<open>\<^verbatim>\<open>results.get('@odata.count') or len(results.get('value', []))\<close>\<close>

definition doc_count :: "json \<Rightarrow> exn + json" where
  "doc_count results =
     (case py_get results ''@odata.count'' JNull of
        Inl e \<Rightarrow> Inl e
      | Inr c \<Rightarrow>
          if truthy c then Inr c
          else (case py_get results ''value'' (JArr []) of
                  Inl e \<Rightarrow> Inl e
                | Inr v \<Rightarrow> (case py_len v of Inl e \<Rightarrow> Inl e | Inr n \<Rightarrow> Inr (JInt (int n)))))"

definition startswith :: "string \<Rightarrow> string \<Rightarrow> bool" where
  "startswith s p = (take (length p) s = p)"

fun display_value :: "json \<Rightarrow> string" where
  "display_value (JStr s) = (if length s > 200 then take 200 s @ ''...'' else s)"
| "display_value (JArr (x # xs)) =
     ''['' @ dec_nat (length (x # xs)) @ '' items] '' @ take 100 (py_str x) @ ''...''"
| "display_value v = take 200 (py_str v)"

text \<open>The loop over \<^verbatim>\<open>doc.items()\<close>.\<close>

fun print_fields :: "(string \<times> json) list \<Rightarrow> out" where
  "print_fields [] = skip"
| "print_fields ((key, v) # rest) =
     seq (if startswith key ''@'' then skip
          else py_print (''  '' @ key @ '': '' @ display_value v))
         (print_fields rest)"

fun py_keys :: "json \<Rightarrow> exn + string list" where
  "py_keys (JObj kvs) = Inr (map fst kvs)"
| "py_keys v = Inl (NoAttribute ''keys'')"

fun py_items :: "json \<Rightarrow> exn + (string \<times> json) list" where
  "py_items (JObj kvs) = Inr kvs"
| "py_items v = Inl (NoAttribute ''items'')"

definition print_document :: "nat \<Rightarrow> json \<Rightarrow> out" where
  "print_document i doc =
     block
      [py_print (''Document '' @ dec_nat i @ '':''),
       with_val (py_keys doc)
         (\<lambda>ks. py_print (''  Available fields: '' @ py_str (JArr (map JStr ks)))),
       py_print [],
       with_val (py_items doc) print_fields,
       py_print []]"

text \<open>Lines 37 to 68: the sample documents.\<close>

definition sample_section :: "environment \<Rightarrow> transport \<Rightarrow> out" where
  "sample_section env http =
     block
      [py_print (''=== Sample Documents ==='' @ [nl]),
       with_val (http (search_request env)) (\<lambda>search_response.
         if status_code search_response = 200 then
           with_val (json_of search_response) (\<lambda>results.
             block
              [with_val (doc_count results)
                 (\<lambda>c. py_print (''Total documents in search: '' @ py_str c @ [nl])),
               with_val (py_get results ''value'' (JArr []))
                 (\<lambda>docs. with_val (py_iter docs) (for_each print_document 1))])
         else
           block
            [py_print (''Error searching: '' @ dec_int (status_code search_response)),
             py_print (resp_text search_response)])]"

definition print_result :: "nat \<Rightarrow> json \<Rightarrow> out" where
  "print_result i doc =
     block
      [py_print (''Result '' @ dec_nat i @ '':''),
       with_val (py_get doc ''@search.score'' (JStr ''N/A''))
         (\<lambda>v. py_print (''  Score: '' @ py_str v)),
       with_val (py_get doc ''title'' (JStr ''N/A''))
         (\<lambda>v. py_print (''  Title: '' @ py_str v)),
       with_val (py_get doc ''source_url'' (JStr ''N/A''))
         (\<lambda>v. py_print (''  Source URL: '' @ py_str v)),
       py_print []]"

text \<open>Lines 71 to 100: the vector search.\<close>

definition vector_section :: "environment \<Rightarrow> transport \<Rightarrow> out" where
  "vector_section env http =
     block
      [py_print (nl # ''=== Vector Search Test ==='' @ [nl]),
       with_val (http (vector_request env)) (\<lambda>vector_response.
         if status_code vector_response = 200 then
           with_val (json_of vector_response) (\<lambda>results.
             block
              [with_val (py_get results ''value'' (JArr [])) (\<lambda>docs.
                 with_val (py_len docs)
                   (\<lambda>n. py_print (''Vector search returned '' @ dec_nat n @ '' results'' @ [nl]))),
               with_val (py_get results ''value'' (JArr []))
                 (\<lambda>docs. with_val (py_iter docs) (for_each print_result 1)),
               py_print (check_mark @ '' Vector embeddings are working correctly!'')])
         else
           block
            [py_print (cross_mark @ '' Error with vector search: '' @ dec_int (status_code vector_response)),
             py_print (resp_text vector_response)])]"

text \<open>The whole script, and the status the process ends with.\<close>

definition check_index :: "environment \<Rightarrow> transport \<Rightarrow> out" where
  "check_index env http =
     block [stats_section env http, sample_section env http, vector_section env http]"

definition exit_status :: "out \<Rightarrow> int" where
  "exit_status r = (case snd r of None \<Rightarrow> 0 | Some (Exit n) \<Rightarrow> n | Some (Raised e) \<Rightarrow> 1)"

section \<open>Vocabulary of the statements\<close>

text \<open>
  \<open>shown entry k d\<close> is the text printed for the field \<open>k\<close> of a dictionary: the text of
  its value, or \<open>d\<close> when the dictionary has no such key.
\<close>

fun is_obj :: "json \<Rightarrow> bool" where
  "is_obj (JObj kvs) = True"
| "is_obj v = False"

fun shown :: "json \<Rightarrow> string \<Rightarrow> string \<Rightarrow> string" where
  "shown (JObj kvs) k d = (case map_of kvs k of Some v \<Rightarrow> py_str v | None \<Rightarrow> d)"
| "shown v k d = d"

text \<open>
  Payloads on which the rendering of the status report runs to its end. \<open>field_or\<close> is the
  value \<^verbatim>\<open>get\<close> gives on a dictionary. A sequence of entries is in order for a loop that
  visits its first \<open>n\<close> places when it is a list with dictionaries in those places; a value
  that is not a list is in order only when the script's test skips it. A status payload is
  in order when it is a dictionary, its \<open>lastResult\<close> is absent, skipped, or a dictionary
  whose errors and warnings are in order, and its \<open>executionHistory\<close> is absent, skipped, a
  list of at most one entry, or a list that starts with a dictionary whose warnings are in
  order.
\<close>

definition field_or :: "(string \<times> json) list \<Rightarrow> string \<Rightarrow> json \<Rightarrow> json" where
  "field_or kvs k d = (case map_of kvs k of Some v \<Rightarrow> v | None \<Rightarrow> d)"

fun entries_ok :: "nat \<Rightarrow> json \<Rightarrow> bool" where
  "entries_ok n (JArr xs) = list_all is_obj (take n xs)"
| "entries_ok n v = (\<not> truthy v)"

fun last_result_ok :: "json \<Rightarrow> bool" where
  "last_result_ok (JObj lr) =
     (entries_ok 10 (field_or lr ''errors'' (JArr [])) \<and>
      entries_ok 20 (field_or lr ''warnings'' (JArr [])))"
| "last_result_ok v = (\<not> truthy v)"

fun history_ok :: "json \<Rightarrow> bool" where
  "history_ok (JArr []) = True"
| "history_ok (JArr [x]) = True"
| "history_ok (JArr (JObj e # y # ys)) = entries_ok 5 (field_or e ''warnings'' (JArr []))"
| "history_ok (JArr (x # y # ys)) = False"
| "history_ok v = (\<not> truthy v)"

fun status_ok :: "json \<Rightarrow> bool" where
  "status_ok (JObj p) =
     (last_result_ok (field_or p ''lastResult'' (JObj [])) \<and>
      history_ok (field_or p ''executionHistory'' (JArr [])))"
| "status_ok v = False"

text \<open>\<open>fields doc\<close> is the list of the items of a dictionary, in order.\<close>

fun fields :: "json \<Rightarrow> (string \<times> json) list" where
  "fields (JObj kvs) = kvs"
| "fields v = []"

section \<open>Example inputs\<close>

text \<open>Transports and responses on which the statements below are evaluated.\<close>

definition example_settings :: settings where
  "example_settings = \<lparr> search_endpoint = ''https://search.example'', search_api_key = ''secret'' \<rparr>"

definition example_env :: environment where
  "example_env = \<lparr> SEARCH_ENDPOINT = Some ''https://search.example'', SEARCH_API_KEY = Some ''secret'' \<rparr>"

definition ok_response :: "json \<Rightarrow> response" where
  "ok_response payload = \<lparr> status_code = 200, resp_text = [], resp_json = Some payload \<rparr>"

definition failed_response :: "int \<Rightarrow> string \<Rightarrow> response" where
  "failed_response code raw = \<lparr> status_code = code, resp_text = raw, resp_json = None \<rparr>"

text \<open>The transport that answers every request with the same response.\<close>

definition reply :: "response \<Rightarrow> transport" where
  "reply r req = Inr r"

text \<open>
  The transport that answers the statistics request with \<open>a\<close>, the sample search with
  \<open>b\<close> and the vector search with \<open>c\<close>.
\<close>

definition routed :: "response \<Rightarrow> response \<Rightarrow> response \<Rightarrow> transport" where
  "routed a b c req =
     (case req_body req of
        None \<Rightarrow> Inr a
      | Some q \<Rightarrow> if q = search_body then Inr b else Inr c)"

text \<open>
  A status payload whose last run has no errors and one warning with a message and a key.
\<close>

definition bad_field_payload :: json where
  "bad_field_payload =
     JObj [(''status'', JStr ''running''),
           (''lastResult'',
            JObj [(''status'', JStr ''success''),
                  (''errors'', JArr []),
                  (''warnings'', JArr [JObj [(''message'', JStr ''Bad field''), (''key'', JStr ''doc1'')]])])]"

text \<open>
  Status payloads with one error entry: the first carries its text under \<open>message\<close>, the
  second under \<open>errorMessage\<close>.
\<close>

definition message_only_error_payload :: json where
  "message_only_error_payload =
     JObj [(''status'', JStr ''running''),
           (''lastResult'',
            JObj [(''status'', JStr ''transientFailure''),
                  (''itemsProcessed'', JInt 7),
                  (''itemsFailed'', JInt 1),
                  (''errors'', JArr [JObj [(''message'', JStr ''X'')]])])]"

definition error_message_payload :: json where
  "error_message_payload =
     JObj [(''status'', JStr ''running''),
           (''lastResult'',
            JObj [(''status'', JStr ''transientFailure''),
                  (''errors'', JArr [JObj [(''errorMessage'', JStr ''Could not parse''), (''key'', JStr ''doc7'')]])])]"

text \<open>A last run with 12 errors and 25 warnings.\<close>

definition many_entries_payload :: json where
  "many_entries_payload =
     JObj [(''status'', JStr ''running''),
           (''lastResult'',
            JObj [(''status'', JStr ''transientFailure''),
                  (''errors'', JArr (replicate 12 (JObj [(''errorMessage'', JStr ''e'')]))),
                  (''warnings'', JArr (replicate 25 (JObj [(''message'', JStr ''w'')])))])]"

text \<open>
  An execution history of two runs, the most recent first: the first succeeded with two
  warnings, the one before it failed.
\<close>

definition two_runs_payload :: json where
  "two_runs_payload =
     JObj [(''status'', JStr ''running''),
           (''executionHistory'',
            JArr [JObj [(''status'', JStr ''success''),
                        (''warnings'', JArr [JObj [(''message'', JStr ''Slow source'')], JObj []])],
                  JObj [(''status'', JStr ''transientFailure'')]])]"

text \<open>An empty \<open>lastResult\<close> and a history of two runs.\<close>

definition empty_last_result_payload :: json where
  "empty_last_result_payload =
     JObj [(''status'', JStr ''running''),
           (''lastResult'', JObj []),
           (''executionHistory'',
            JArr [JObj [(''status'', JStr ''success'')], JObj [(''status'', JStr ''reset'')]])]"

text \<open>A statistics payload with the three fields.\<close>

definition full_stats_payload :: json where
  "full_stats_payload =
     JObj [(''documentCount'', JInt 42), (''storageSize'', JInt 1000), (''vectorIndexSize'', JInt 200)]"

text \<open>A search result that reports a total of 0 beside one returned document.\<close>

definition zero_count_results :: json where
  "zero_count_results = JObj [(''@odata.count'', JInt 0), (''value'', JArr [JObj []])]"

text \<open>
  A search result with one document: a metadata field, a string of 201 characters and a
  string of 5.
\<close>

definition long_field_results :: json where
  "long_field_results =
     JObj [(''@odata.count'', JInt 1),
           (''value'',
            JArr [JObj [(''@search.score'', JInt 1),
                        (''content'', JStr (replicate 201 (CHR ''a''))),
                        (''title'', JStr ''Guide'')]])]"

section \<open>Properties\<close>

subsection \<open>Sequencing\<close>

lemma with_val_Inr [simp]: "with_val (Inr v) f = f v"
  by (simp add: with_val_def)

lemma with_val_Inl [simp]: "with_val (Inl e) f = py_raise e"
  by (simp add: with_val_def)

lemma seq_print [simp]: "seq (py_print s) b = (s # fst b, snd b)"
  by (simp add: seq_def py_print_def)

lemma seq_skip [simp]: "seq skip b = b"
  by (simp add: seq_def skip_def)

lemma seq_skip_right [simp]: "seq a skip = a"
  by (cases a) (auto simp: seq_def skip_def split: option.split)

lemma seq_raise [simp]: "seq (py_raise e) b = py_raise e"
  by (simp add: seq_def py_raise_def)

lemma seq_exit [simp]: "seq (py_exit n) b = py_exit n"
  by (simp add: seq_def py_exit_def)

lemma seq_pair_None [simp]: "seq (xs, None) b = (xs @ fst b, snd b)"
  by (simp add: seq_def)

lemma seq_pair_Some [simp]: "seq (xs, Some e) b = (xs, Some e)"
  by (simp add: seq_def)

lemma fst_seq: "fst (seq a b) = fst a @ (if snd a = None then fst b else [])"
  by (cases "snd a") (simp_all add: seq_def)

lemma snd_seq: "snd (seq a b) = (if snd a = None then snd b else snd a)"
  by (cases "snd a") (simp_all add: seq_def)

lemma shown_get:
  "py_str (case map_of kvs k of None \<Rightarrow> dv | Some v \<Rightarrow> v) = shown (JObj kvs) k (py_str dv)"
  by (simp split: option.split)

lemma dec_int_0: "dec_int 0 = ''0''"
  by (simp add: dec_int_def dec_nat.simps digit_char_def)

lemma for_each_done:
  "(\<And>j x. x \<in> set xs \<Longrightarrow> body j x = (lines j x, None)) \<Longrightarrow>
   for_each body i xs = (concat (map (\<lambda>j. lines (i + j) (xs ! j)) [0..<length xs]), None)"
proof (induction xs arbitrary: i)
  case Nil
  show ?case by (simp add: skip_def)
next
  case (Cons x xs)
  have tl: "for_each body (Suc i) xs = (concat (map (\<lambda>j. lines (Suc i + j) (xs ! j)) [0..<length xs]), None)"
    by (rule Cons.IH) (simp add: Cons.prems)
  have hd: "body i x = (lines i x, None)"
    by (simp add: Cons.prems)
  have shift: "map (\<lambda>j. lines (i + j) ((x # xs) ! j)) [0..<length (x # xs)] =
        lines i x # map (\<lambda>j. lines (Suc i + j) (xs ! j)) [0..<length xs]"
    by (simp add: upt_conv_Cons map_Suc_upt [symmetric] del: upt_Suc)
  show ?case
    by (simp only: for_each.simps hd tl seq_pair_None fst_conv snd_conv shift concat.simps list.map)
qed

lemma take_nth_map:
  "map (\<lambda>j. f j (take n xs ! j)) [0..<length (take n xs)] = map (\<lambda>j. f j (xs ! j)) [0..<min (length xs) n]"
  by (rule map_cong) (simp_all add: min.commute)

subsection \<open>The blocks of the status report on well-formed entries\<close>

lemma print_error_obj:
  "print_error i (JObj kvs) =
     ([''    '' @ dec_nat i @ ''. '' @ shown (JObj kvs) ''errorMessage'' ''Unknown error'',
       ''       Key: '' @ shown (JObj kvs) ''key'' ''N/A'',
       ''       Name: '' @ shown (JObj kvs) ''name'' ''N/A''], None)"
  by (simp add: print_error_def py_print_def shown_get del: shown.simps)

lemma print_warning_obj:
  "print_warning i (JObj kvs) =
     ([''    '' @ dec_nat i @ ''. '' @ shown (JObj kvs) ''message'' ''Unknown warning'',
       ''       Key: '' @ shown (JObj kvs) ''key'' ''N/A'',
       ''       Name: '' @ shown (JObj kvs) ''name'' ''N/A'',
       ''       Details: '' @ shown (JObj kvs) ''details'' ''N/A'',
       []], None)"
  by (simp add: print_warning_def py_print_def shown_get del: shown.simps)

lemma print_recent_warning_obj:
  "print_recent_warning i (JObj kvs) =
     ([''  '' @ dec_nat i @ ''. '' @ shown (JObj kvs) ''message'' ''Unknown''], None)"
  by (simp add: print_recent_warning_def py_print_def shown_get del: shown.simps)

lemma for_each_objs:
  assumes objs: "\<forall>x \<in> set (take n xs). is_obj x"
    and body: "\<And>j kvs. body j (JObj kvs) = (lines j (JObj kvs), None)"
  shows "for_each body i (take n xs) =
     (concat (map (\<lambda>j. lines (i + j) (xs ! j)) [0..<min (length xs) n]), None)"
proof -
  have "for_each body i (take n xs) =
     (concat (map (\<lambda>j. lines (i + j) (take n xs ! j)) [0..<length (take n xs)]), None)"
  proof (rule for_each_done)
    fix j x
    assume "x \<in> set (take n xs)"
    with objs have "is_obj x" by blast
    then obtain kvs where "x = JObj kvs" by (cases x) simp_all
    then show "body j x = (lines j x, None)"
      by (simp only: body)
  qed
  then show ?thesis
    by (simp only: take_nth_map [where f = "\<lambda>j. lines (i + j)"])
qed

lemma warnings_block_list:
  assumes "map_of lr ''warnings'' = Some (JArr ws)" and "ws \<noteq> []"
  shows "warnings_block (JObj lr) =
     seq (py_print (nl # ''  WARNINGS ('' @ dec_nat (length ws) @ ''):''))
         (for_each print_warning 1 (take 20 ws))"
  using assms by (simp add: warnings_block_def)

lemma errors_block_list:
  assumes "map_of lr ''errors'' = Some (JArr es)" and "es \<noteq> []"
  shows "errors_block (JObj lr) =
     seq (py_print (nl # ''  ERRORS ('' @ dec_nat (length es) @ ''):''))
         (for_each print_error 1 (take 10 es))"
  using assms by (simp add: errors_block_def)

lemma last_run_obj:
  assumes "map_of p ''lastResult'' = Some (JObj lr)" and "lr \<noteq> []"
  shows "last_run_section (JObj p) =
     seq ([nl # ''Last Run:'',
           ''  Status: '' @ shown (JObj lr) ''status'' ''None'',
           ''  Items Processed: '' @ shown (JObj lr) ''itemsProcessed'' ''0'',
           ''  Items Failed: '' @ shown (JObj lr) ''itemsFailed'' ''0''], None)
       (seq (errors_block (JObj lr)) (warnings_block (JObj lr)))"
  using assms
  by (simp add: last_run_section_def py_print_def shown_get dec_int_0 del: shown.simps)

lemma report_obj:
  "report name (JObj p) =
     seq ([nl # ''=== Indexer: '' @ name @ '' ==='', ''Status: '' @ shown (JObj p) ''status'' ''None''], None)
       (seq (last_run_section (JObj p)) (history_section (JObj p)))"
  by (simp add: report_def py_print_def shown_get del: shown.simps)

lemma details_fst:
  assumes "http (status_request config name) = Inr r" and "status_code r = 200"
    and "resp_json r = Some payload"
  shows "fst (get_indexer_status_details config http name) = fst (report name payload)"
  using assms
  by (simp add: get_indexer_status_details_def json_of_def split: prod.split option.split)

lemma details_snd:
  assumes "http (status_request config name) = Inr r" and "status_code r = 200"
    and "resp_json r = Some payload"
  shows "snd (get_indexer_status_details config http name) =
      (case snd (report name payload) of None \<Rightarrow> Inr (Some payload) | Some e \<Rightarrow> Inl e)"
  using assms
  by (simp add: get_indexer_status_details_def json_of_def split: prod.split option.split)

subsection \<open>The blocks on lists of dictionaries\<close>

lemma errors_block_objs:
  assumes "map_of lr ''errors'' = Some (JArr es)" and "es \<noteq> []"
    and "\<forall>e \<in> set (take 10 es). is_obj e"
  shows "errors_block (JObj lr) =
     ((nl # ''  ERRORS ('' @ dec_nat (length es) @ ''):'') #
      concat (map (\<lambda>j.
         [''    '' @ dec_nat (Suc j) @ ''. '' @ shown (es ! j) ''errorMessage'' ''Unknown error'',
          ''       Key: '' @ shown (es ! j) ''key'' ''N/A'',
          ''       Name: '' @ shown (es ! j) ''name'' ''N/A'']) [0..<min (length es) 10]), None)"
  using for_each_objs [OF assms(3), of print_error _ 1, OF print_error_obj]
  by (simp add: errors_block_list [OF assms(1,2)])

lemma warnings_block_objs:
  assumes "map_of lr ''warnings'' = Some (JArr ws)" and "ws \<noteq> []"
    and "\<forall>w \<in> set (take 20 ws). is_obj w"
  shows "warnings_block (JObj lr) =
     ((nl # ''  WARNINGS ('' @ dec_nat (length ws) @ ''):'') #
      concat (map (\<lambda>j.
         [''    '' @ dec_nat (Suc j) @ ''. '' @ shown (ws ! j) ''message'' ''Unknown warning'',
          ''       Key: '' @ shown (ws ! j) ''key'' ''N/A'',
          ''       Name: '' @ shown (ws ! j) ''name'' ''N/A'',
          ''       Details: '' @ shown (ws ! j) ''details'' ''N/A'',
          []]) [0..<min (length ws) 20]), None)"
  using for_each_objs [OF assms(3), of print_warning _ 1, OF print_warning_obj]
  by (simp add: warnings_block_list [OF assms(1,2)])

lemma length_concat_chunks:
  "(\<And>j. length (f j) = k) \<Longrightarrow> length (concat (map f [0..<n])) = k * n"
  by (induction n) simp_all

lemma recent_warnings_objs:
  assumes "\<forall>w \<in> set (take 5 ws). is_obj w"
  shows "for_each print_recent_warning (Suc 0) (take 5 ws) =
     (map (\<lambda>j. ''  '' @ dec_nat (Suc j) @ ''. '' @ shown (ws ! j) ''message'' ''Unknown'')
        [0..<min (length ws) 5], None)"
  using for_each_objs [OF assms, of print_recent_warning _ 1, OF print_recent_warning_obj]
  by (simp add: concat_map_singleton)

lemma history_section_list:
  assumes "map_of p ''executionHistory'' = Some (JArr (JObj e # rest))"
    and "py_get (JObj e) ''warnings'' (JArr []) = Inr (JArr ws)"
    and "\<forall>w \<in> set (take 5 ws). is_obj w"
  shows "history_section (JObj p) =
     (if rest = [] then []
      else [nl # ''=== Recent Execution ==='', ''Status: '' @ shown (JObj e) ''status'' ''None'']
        @ (if ws = [] then []
           else (''Warnings in this run: '' @ dec_nat (length ws)) #
             map (\<lambda>j. ''  '' @ dec_nat (Suc j) @ ''. '' @ shown (ws ! j) ''message'' ''Unknown'')
               [0..<min (length ws) 5]), None)"
proof (cases "rest = []")
  case True
  with assms(1) show ?thesis
    by (simp add: history_section_def skip_def)
next
  case False
  have g: "(case map_of e ''warnings'' of None \<Rightarrow> JArr [] | Some v \<Rightarrow> v) = JArr ws"
    using assms(2) by simp
  show ?thesis
    using False assms(1)
    by (simp add: history_section_def g recent_warnings_objs [OF assms(3)] shown_get skip_def
         py_print_def del: shown.simps)
qed

subsection \<open>The warnings of the last run\<close>

text \<open>
  Claim C6. On a 200 response whose payload is a dictionary with a non-empty dictionary
  \<open>lastResult\<close>, whose errors block completes and whose \<open>warnings\<close> is a non-empty
  list \<open>ws\<close> with dictionaries in its first 20 places, the report is: the header lines of
  the indexer and of the last run, the errors block, the line \<open>WARNINGS (N)\<close> with
  \<open>N = length ws\<close>, then for each of the first \<open>min N 20\<close> warnings, in order and
  numbered from 1, its message (default \<open>Unknown warning\<close>), key, name and details
  (default \<open>N/A\<close> each) and an empty line, and then the execution history section.
\<close>

theorem warnings_first_twenty:
  assumes "http (status_request config name) = Inr r"
    and "status_code r = 200"
    and "resp_json r = Some (JObj p)"
    and "map_of p ''lastResult'' = Some (JObj lr)"
    and "lr \<noteq> []"
    and "snd (errors_block (JObj lr)) = None"
    and "map_of lr ''warnings'' = Some (JArr ws)"
    and "ws \<noteq> []"
    and "\<forall>w \<in> set (take 20 ws). is_obj w"
  shows "fst (get_indexer_status_details config http name) =
     [nl # ''=== Indexer: '' @ name @ '' ==='',
      ''Status: '' @ shown (JObj p) ''status'' ''None'',
      nl # ''Last Run:'',
      ''  Status: '' @ shown (JObj lr) ''status'' ''None'',
      ''  Items Processed: '' @ shown (JObj lr) ''itemsProcessed'' ''0'',
      ''  Items Failed: '' @ shown (JObj lr) ''itemsFailed'' ''0'']
     @ fst (errors_block (JObj lr))
     @ [nl # ''  WARNINGS ('' @ dec_nat (length ws) @ ''):'']
     @ concat (map (\<lambda>j.
         [''    '' @ dec_nat (Suc j) @ ''. '' @ shown (ws ! j) ''message'' ''Unknown warning'',
          ''       Key: '' @ shown (ws ! j) ''key'' ''N/A'',
          ''       Name: '' @ shown (ws ! j) ''name'' ''N/A'',
          ''       Details: '' @ shown (ws ! j) ''details'' ''N/A'',
          []]) [0..<min (length ws) 20])
     @ fst (history_section (JObj p))"
  using assms(6)
  by (simp add: details_fst [where http = http, OF assms(1,2,3)] report_obj
      last_run_obj [OF assms(4,5)] warnings_block_objs [OF assms(7,8,9)] fst_seq snd_seq
      del: shown.simps)

text \<open>The scenario of one warning with a message and a key, and no errors.\<close>

theorem warnings_first_twenty_witness:
  "fst (get_indexer_status_details example_settings (reply (ok_response bad_field_payload)) ''ix'') =
     [nl # ''=== Indexer: ix ==='',
      ''Status: running'',
      nl # ''Last Run:'',
      ''  Status: success'',
      ''  Items Processed: 0'',
      ''  Items Failed: 0'',
      nl # ''  WARNINGS (1):'',
      ''    1. Bad field'',
      ''       Key: doc1'',
      ''       Name: N/A'',
      ''       Details: N/A'',
      []]"
proof -
  let ?ws = "[JObj [(''message'', JStr ''Bad field''), (''key'', JStr ''doc1'')]]"
  let ?lr = "[(''status'', JStr ''success''), (''errors'', JArr []), (''warnings'', JArr ?ws)]"
  let ?p = "[(''status'', JStr ''running''), (''lastResult'', JObj ?lr)]"
  have h1: "reply (ok_response bad_field_payload) (status_request example_settings ''ix'') =
      Inr (ok_response bad_field_payload)"
    by (simp add: reply_def)
  have h2: "status_code (ok_response bad_field_payload) = 200"
    by (simp add: ok_response_def)
  have h3: "resp_json (ok_response bad_field_payload) = Some (JObj ?p)"
    by (simp add: ok_response_def bad_field_payload_def)
  have h4: "map_of ?p ''lastResult'' = Some (JObj ?lr)" by simp
  have h5: "?lr \<noteq> []" by simp
  have h6: "snd (errors_block (JObj ?lr)) = None" by (simp add: errors_block_def skip_def)
  have h7: "map_of ?lr ''warnings'' = Some (JArr ?ws)" by simp
  have h8: "?ws \<noteq> []" by simp
  have h9: "\<forall>w \<in> set (take 20 ?ws). is_obj w" by simp
  show ?thesis
    by (simp add: warnings_first_twenty [where http = "reply (ok_response bad_field_payload)"
          and config = example_settings and name = "''ix''", OF h1 h2 h3 h4 h5 h6 h7 h8 h9]
        history_section_def skip_def dec_nat.simps digit_char_def errors_block_def)
qed

subsection \<open>The errors of the last run\<close>

text \<open>
  Claim C2, as stated, fails: an error entry that carries its text under \<open>message\<close> is
  listed as \<open>Unknown error\<close>, since the loop reads the key \<open>errorMessage\<close>.
\<close>

theorem message_field_not_shown_counterexample:
  "fst (get_indexer_status_details example_settings (reply (ok_response message_only_error_payload)) ''ix'') =
     [nl # ''=== Indexer: ix ==='',
      ''Status: running'',
      nl # ''Last Run:'',
      ''  Status: transientFailure'',
      ''  Items Processed: 7'',
      ''  Items Failed: 1'',
      nl # ''  ERRORS (1):'',
      ''    1. Unknown error'',
      ''       Key: N/A'',
      ''       Name: N/A'']
   \<and> ''    1. X'' \<notin> set (fst (get_indexer_status_details example_settings
          (reply (ok_response message_only_error_payload)) ''ix''))"
  by (simp add: get_indexer_status_details_def reply_def ok_response_def json_of_def
      message_only_error_payload_def report_def last_run_section_def errors_block_def
      warnings_block_def history_section_def print_error_def py_print_def skip_def
      dec_nat.simps digit_char_def dec_int_def nl_def)

text \<open>
  Claim C2, amended. On a 200 response whose payload is a dictionary with a non-empty
  dictionary \<open>lastResult\<close> whose \<open>errors\<close> is a non-empty list \<open>es\<close> with dictionaries in
  its first 10 places, the report has the line \<open>ERRORS (N)\<close> with \<open>N = length es\<close> and
  then, for each of the first \<open>min N 10\<close> errors, in order and numbered from 1, the value
  of its field \<open>errorMessage\<close> (default \<open>Unknown error\<close>), its key and its name (default
  \<open>N/A\<close> each); the warnings block and the execution history follow.
\<close>

theorem errors_first_ten:
  assumes "http (status_request config name) = Inr r"
    and "status_code r = 200"
    and "resp_json r = Some (JObj p)"
    and "map_of p ''lastResult'' = Some (JObj lr)"
    and "lr \<noteq> []"
    and "map_of lr ''errors'' = Some (JArr es)"
    and "es \<noteq> []"
    and "\<forall>e \<in> set (take 10 es). is_obj e"
  shows "fst (get_indexer_status_details config http name) =
     [nl # ''=== Indexer: '' @ name @ '' ==='',
      ''Status: '' @ shown (JObj p) ''status'' ''None'',
      nl # ''Last Run:'',
      ''  Status: '' @ shown (JObj lr) ''status'' ''None'',
      ''  Items Processed: '' @ shown (JObj lr) ''itemsProcessed'' ''0'',
      ''  Items Failed: '' @ shown (JObj lr) ''itemsFailed'' ''0'',
      nl # ''  ERRORS ('' @ dec_nat (length es) @ ''):'']
     @ concat (map (\<lambda>j.
         [''    '' @ dec_nat (Suc j) @ ''. '' @ shown (es ! j) ''errorMessage'' ''Unknown error'',
          ''       Key: '' @ shown (es ! j) ''key'' ''N/A'',
          ''       Name: '' @ shown (es ! j) ''name'' ''N/A'']) [0..<min (length es) 10])
     @ fst (warnings_block (JObj lr))
     @ (if snd (warnings_block (JObj lr)) = None then fst (history_section (JObj p)) else [])"
  by (simp add: details_fst [where http = http, OF assms(1,2,3)] report_obj
      last_run_obj [OF assms(4,5)] errors_block_objs [OF assms(6,7,8)] fst_seq snd_seq
      del: shown.simps)

text \<open>An entry with \<open>errorMessage\<close> and \<open>key\<close>, and no name.\<close>

theorem errors_first_ten_witness:
  "fst (get_indexer_status_details example_settings (reply (ok_response error_message_payload)) ''ix'') =
     [nl # ''=== Indexer: ix ==='',
      ''Status: running'',
      nl # ''Last Run:'',
      ''  Status: transientFailure'',
      ''  Items Processed: 0'',
      ''  Items Failed: 0'',
      nl # ''  ERRORS (1):'',
      ''    1. Could not parse'',
      ''       Key: doc7'',
      ''       Name: N/A'']"
proof -
  let ?es = "[JObj [(''errorMessage'', JStr ''Could not parse''), (''key'', JStr ''doc7'')]]"
  let ?lr = "[(''status'', JStr ''transientFailure''), (''errors'', JArr ?es)]"
  let ?p = "[(''status'', JStr ''running''), (''lastResult'', JObj ?lr)]"
  have h1: "reply (ok_response error_message_payload) (status_request example_settings ''ix'') =
      Inr (ok_response error_message_payload)"
    by (simp add: reply_def)
  have h2: "status_code (ok_response error_message_payload) = 200"
    by (simp add: ok_response_def)
  have h3: "resp_json (ok_response error_message_payload) = Some (JObj ?p)"
    by (simp add: ok_response_def error_message_payload_def)
  have h4: "map_of ?p ''lastResult'' = Some (JObj ?lr)" by simp
  have h5: "?lr \<noteq> []" by simp
  have h6: "map_of ?lr ''errors'' = Some (JArr ?es)" by simp
  have h7: "?es \<noteq> []" by simp
  have h8: "\<forall>e \<in> set (take 10 ?es). is_obj e" by simp
  show ?thesis
    by (simp add: errors_first_ten [where http = "reply (ok_response error_message_payload)"
          and config = example_settings and name = "''ix''", OF h1 h2 h3 h4 h5 h6 h7 h8]
        history_section_def warnings_block_def skip_def dec_nat.simps digit_char_def)
qed

subsection \<open>The counts in the headers\<close>

text \<open>
  Claim C10. With a non-empty list \<open>es\<close> of errors and a non-empty list \<open>ws\<close> of warnings
  in the last run (dictionaries in the places the loops visit), the seventh printed line is
  \<open>ERRORS (length es)\<close>; it is followed by three lines for each of the first
  \<open>min (length es) 10\<close> errors, then by \<open>WARNINGS (length ws)\<close> and five lines for each of
  the first \<open>min (length ws) 20\<close> warnings. The headers count the whole sequences, the
  listing is cut.
\<close>

theorem header_counts_are_totals:
  assumes "http (status_request config name) = Inr r"
    and "status_code r = 200"
    and "resp_json r = Some (JObj p)"
    and "map_of p ''lastResult'' = Some (JObj lr)"
    and "lr \<noteq> []"
    and "map_of lr ''errors'' = Some (JArr es)"
    and "es \<noteq> []"
    and "\<forall>e \<in> set (take 10 es). is_obj e"
    and "map_of lr ''warnings'' = Some (JArr ws)"
    and "ws \<noteq> []"
    and "\<forall>w \<in> set (take 20 ws). is_obj w"
  shows "fst (get_indexer_status_details config http name) ! 6 =
       nl # ''  ERRORS ('' @ dec_nat (length es) @ ''):''
     \<and> fst (get_indexer_status_details config http name) ! (7 + 3 * min (length es) 10) =
       nl # ''  WARNINGS ('' @ dec_nat (length ws) @ ''):''
     \<and> length (fst (get_indexer_status_details config http name)) =
       8 + 3 * min (length es) 10 + 5 * min (length ws) 20 + length (fst (history_section (JObj p)))"
proof -
  define E where "E = concat (map (\<lambda>j.
         [''    '' @ dec_nat (Suc j) @ ''. '' @ shown (es ! j) ''errorMessage'' ''Unknown error'',
          ''       Key: '' @ shown (es ! j) ''key'' ''N/A'',
          ''       Name: '' @ shown (es ! j) ''name'' ''N/A'']) [0..<min (length es) 10])"
  define W where "W = concat (map (\<lambda>j.
         [''    '' @ dec_nat (Suc j) @ ''. '' @ shown (ws ! j) ''message'' ''Unknown warning'',
          ''       Key: '' @ shown (ws ! j) ''key'' ''N/A'',
          ''       Name: '' @ shown (ws ! j) ''name'' ''N/A'',
          ''       Details: '' @ shown (ws ! j) ''details'' ''N/A'',
          []]) [0..<min (length ws) 20])"
  have lenE: "length E = 3 * min (length es) 10"
    unfolding E_def by (rule length_concat_chunks) simp
  have lenW: "length W = 5 * min (length ws) 20"
    unfolding W_def by (rule length_concat_chunks) simp
  have eb: "errors_block (JObj lr) = ((nl # ''  ERRORS ('' @ dec_nat (length es) @ ''):'') # E, None)"
    unfolding E_def by (rule errors_block_objs [OF assms(6,7,8)])
  have wb: "warnings_block (JObj lr) = ((nl # ''  WARNINGS ('' @ dec_nat (length ws) @ ''):'') # W, None)"
    unfolding W_def by (rule warnings_block_objs [OF assms(9,10,11)])
  have out: "fst (get_indexer_status_details config http name) =
     [nl # ''=== Indexer: '' @ name @ '' ==='',
      ''Status: '' @ shown (JObj p) ''status'' ''None'',
      nl # ''Last Run:'',
      ''  Status: '' @ shown (JObj lr) ''status'' ''None'',
      ''  Items Processed: '' @ shown (JObj lr) ''itemsProcessed'' ''0'',
      ''  Items Failed: '' @ shown (JObj lr) ''itemsFailed'' ''0'',
      nl # ''  ERRORS ('' @ dec_nat (length es) @ ''):'']
     @ E @ (nl # ''  WARNINGS ('' @ dec_nat (length ws) @ ''):'') # W
     @ fst (history_section (JObj p))"
    by (simp add: details_fst [where http = http, OF assms(1,2,3)] report_obj
        last_run_obj [OF assms(4,5)] eb wb del: shown.simps)
  have n7: "7 + 3 * min (length es) 10 = length E + 7"
    by (simp add: lenE)
  show ?thesis
    unfolding out n7
    by (simp add: nth_append lenE lenW del: shown.simps)
qed

text \<open>Twelve errors and twenty-five warnings: the headers show 12 and 25.\<close>

theorem header_counts_are_totals_witness:
  "fst (get_indexer_status_details example_settings (reply (ok_response many_entries_payload)) ''ix'') ! 6 =
       nl # ''  ERRORS (12):''
   \<and> fst (get_indexer_status_details example_settings (reply (ok_response many_entries_payload)) ''ix'') ! 37 =
       nl # ''  WARNINGS (25):''
   \<and> length (fst (get_indexer_status_details example_settings
        (reply (ok_response many_entries_payload)) ''ix'')) = 138"
proof -
  let ?es = "replicate 12 (JObj [(''errorMessage'', JStr ''e'')])"
  let ?ws = "replicate 25 (JObj [(''message'', JStr ''w'')])"
  let ?lr = "[(''status'', JStr ''transientFailure''), (''errors'', JArr ?es), (''warnings'', JArr ?ws)]"
  let ?p = "[(''status'', JStr ''running''), (''lastResult'', JObj ?lr)]"
  have h1: "reply (ok_response many_entries_payload) (status_request example_settings ''ix'') =
      Inr (ok_response many_entries_payload)"
    by (simp add: reply_def)
  have h2: "status_code (ok_response many_entries_payload) = 200"
    by (simp add: ok_response_def)
  have h3: "resp_json (ok_response many_entries_payload) = Some (JObj ?p)"
    by (simp add: ok_response_def many_entries_payload_def)
  have h4: "map_of ?p ''lastResult'' = Some (JObj ?lr)" by simp
  have h5: "?lr \<noteq> []" by simp
  have h6: "map_of ?lr ''errors'' = Some (JArr ?es)" by simp
  have h7: "?es \<noteq> []" by simp
  have h8: "\<forall>e \<in> set (take 10 ?es). is_obj e" by simp
  have h9: "map_of ?lr ''warnings'' = Some (JArr ?ws)" by simp
  have h10: "?ws \<noteq> []" by simp
  have h11: "\<forall>w \<in> set (take 20 ?ws). is_obj w" by simp
  have hist: "fst (history_section (JObj ?p)) = []"
    by (simp add: history_section_def skip_def)
  show ?thesis
    using header_counts_are_totals [where http = "reply (ok_response many_entries_payload)"
          and config = example_settings and name = "''ix''", OF h1 h2 h3 h4 h5 h6 h7 h8 h9 h10 h11]
    by (simp add: hist dec_nat.simps digit_char_def)
qed

subsection \<open>The execution history\<close>

text \<open>
  Claim C1, as stated, fails: with two runs in the history the section shows the status of
  the run at index 0, the most recent one, and not that of the run at index 1.
\<close>

theorem second_entry_not_shown_counterexample:
  "fst (get_indexer_status_details example_settings (reply (ok_response two_runs_payload)) ''ix'') =
     [nl # ''=== Indexer: ix ==='',
      ''Status: running'',
      nl # ''=== Recent Execution ==='',
      ''Status: success'',
      ''Warnings in this run: 2'',
      ''  1. Slow source'',
      ''  2. Unknown'']
   \<and> ''Status: transientFailure'' \<notin> set (fst (get_indexer_status_details example_settings
          (reply (ok_response two_runs_payload)) ''ix''))"
  by (simp add: get_indexer_status_details_def reply_def ok_response_def json_of_def
      two_runs_payload_def report_def last_run_section_def history_section_def
      print_recent_warning_def py_print_def skip_def dec_nat.simps digit_char_def nl_def)

text \<open>
  Claim C1, amended. On a 200 response whose payload is a dictionary, whose last run
  section completes and whose \<open>executionHistory\<close> is a list that starts with a dictionary
  \<open>e\<close>, with \<open>ws\<close> the list of warnings of \<open>e\<close> (empty when \<open>e\<close> has none; dictionaries in
  its first 5 places): when the history has one entry, nothing is printed after the last
  run section; when it has more, the section \<open>Recent Execution\<close> follows with the status
  of \<open>e\<close>, the entry at index 0, and, when \<open>ws\<close> is not empty, the count \<open>length ws\<close> and
  the messages of its first \<open>min (length ws) 5\<close> warnings (default \<open>Unknown\<close>).
\<close>

theorem recent_execution_is_first_entry:
  assumes "http (status_request config name) = Inr r"
    and "status_code r = 200"
    and "resp_json r = Some (JObj p)"
    and "snd (last_run_section (JObj p)) = None"
    and "map_of p ''executionHistory'' = Some (JArr (JObj e # rest))"
    and "py_get (JObj e) ''warnings'' (JArr []) = Inr (JArr ws)"
    and "\<forall>w \<in> set (take 5 ws). is_obj w"
  shows "fst (get_indexer_status_details config http name) =
     [nl # ''=== Indexer: '' @ name @ '' ==='',
      ''Status: '' @ shown (JObj p) ''status'' ''None'']
     @ fst (last_run_section (JObj p))
     @ (if rest = [] then []
        else [nl # ''=== Recent Execution ==='', ''Status: '' @ shown (JObj e) ''status'' ''None'']
          @ (if ws = [] then []
             else (''Warnings in this run: '' @ dec_nat (length ws)) #
               map (\<lambda>j. ''  '' @ dec_nat (Suc j) @ ''. '' @ shown (ws ! j) ''message'' ''Unknown'')
                 [0..<min (length ws) 5]))"
  by (simp add: details_fst [where http = http, OF assms(1,2,3)] report_obj
      history_section_list [OF assms(5,6,7)] fst_seq assms(4)
      del: shown.simps py_get.simps)

text \<open>Two runs: the section shows the first; the same payload cut to one run: no section.\<close>

theorem recent_execution_is_first_entry_witness:
  "fst (get_indexer_status_details example_settings (reply (ok_response two_runs_payload)) ''ix'') =
     [nl # ''=== Indexer: ix ==='',
      ''Status: running'',
      nl # ''=== Recent Execution ==='',
      ''Status: success'',
      ''Warnings in this run: 2'',
      ''  1. Slow source'',
      ''  2. Unknown'']
   \<and> fst (get_indexer_status_details example_settings
        (reply (ok_response (JObj [(''status'', JStr ''running''),
           (''executionHistory'', JArr [JObj [(''status'', JStr ''success'')]])]))) ''ix'') =
     [nl # ''=== Indexer: ix ==='',
      ''Status: running'']"
proof -
  let ?ws = "[JObj [(''message'', JStr ''Slow source'')], JObj []]"
  let ?e = "[(''status'', JStr ''success''), (''warnings'', JArr ?ws)]"
  let ?rest = "[JObj [(''status'', JStr ''transientFailure'')]]"
  let ?p = "[(''status'', JStr ''running''), (''executionHistory'', JArr (JObj ?e # ?rest))]"
  let ?e1 = "[(''status'', JStr ''success'')]"
  let ?p1 = "[(''status'', JStr ''running''), (''executionHistory'', JArr (JObj ?e1 # []))]"
  have h1: "reply (ok_response two_runs_payload) (status_request example_settings ''ix'') =
      Inr (ok_response two_runs_payload)"
    by (simp add: reply_def)
  have h2: "status_code (ok_response two_runs_payload) = 200"
    by (simp add: ok_response_def)
  have h3: "resp_json (ok_response two_runs_payload) = Some (JObj ?p)"
    by (simp add: ok_response_def two_runs_payload_def)
  have h4: "snd (last_run_section (JObj ?p)) = None"
    by (simp add: last_run_section_def skip_def)
  have h5: "map_of ?p ''executionHistory'' = Some (JArr (JObj ?e # ?rest))" by simp
  have h6: "py_get (JObj ?e) ''warnings'' (JArr []) = Inr (JArr ?ws)" by simp
  have h7: "\<forall>w \<in> set (take 5 ?ws). is_obj w" by simp
  have k1: "reply (ok_response (JObj ?p1)) (status_request example_settings ''ix'') =
      Inr (ok_response (JObj ?p1))"
    by (simp add: reply_def)
  have k2: "status_code (ok_response (JObj ?p1)) = 200"
    by (simp add: ok_response_def)
  have k3: "resp_json (ok_response (JObj ?p1)) = Some (JObj ?p1)"
    by (simp add: ok_response_def)
  have k4: "snd (last_run_section (JObj ?p1)) = None"
    by (simp add: last_run_section_def skip_def)
  have k5: "map_of ?p1 ''executionHistory'' = Some (JArr (JObj ?e1 # []))" by simp
  have k6: "py_get (JObj ?e1) ''warnings'' (JArr []) = Inr (JArr [])" by simp
  have k7: "\<forall>w \<in> set (take 5 []). is_obj w" by simp
  have a: "fst (get_indexer_status_details example_settings (reply (ok_response two_runs_payload)) ''ix'') =
     [nl # ''=== Indexer: ix ==='',
      ''Status: running'',
      nl # ''=== Recent Execution ==='',
      ''Status: success'',
      ''Warnings in this run: 2'',
      ''  1. Slow source'',
      ''  2. Unknown'']"
    by (simp add: recent_execution_is_first_entry [where http = "reply (ok_response two_runs_payload)"
          and config = example_settings and name = "''ix''", OF h1 h2 h3 h4 h5 h6 h7]
        last_run_section_def skip_def dec_nat.simps digit_char_def upt_conv_Cons)
  have b: "fst (get_indexer_status_details example_settings (reply (ok_response (JObj ?p1))) ''ix'') =
     [nl # ''=== Indexer: ix ==='',
      ''Status: running'']"
    by (simp add: recent_execution_is_first_entry [where http = "reply (ok_response (JObj ?p1))"
          and config = example_settings and name = "''ix''", OF k1 k2 k3 k4 k5 k6 k7]
        last_run_section_def skip_def)
  show ?thesis
    using a b by simp
qed

subsection \<open>A payload without a last run\<close>

text \<open>
  Claim C9. On a 200 response whose payload is a dictionary in which \<open>lastResult\<close> is
  absent or the empty dictionary, the last run section prints nothing and raises nothing;
  the report is the two header lines followed by the execution history section, and the
  payload is returned unless the history section raises.
\<close>

theorem absent_last_result_skips_section:
  assumes "http (status_request config name) = Inr r"
    and "status_code r = 200"
    and "resp_json r = Some (JObj p)"
    and "map_of p ''lastResult'' = None \<or> map_of p ''lastResult'' = Some (JObj [])"
  shows "last_run_section (JObj p) = ([], None)
     \<and> fst (get_indexer_status_details config http name) =
         [nl # ''=== Indexer: '' @ name @ '' ==='', ''Status: '' @ shown (JObj p) ''status'' ''None'']
         @ fst (history_section (JObj p))
     \<and> snd (get_indexer_status_details config http name) =
         (case snd (history_section (JObj p)) of
            None \<Rightarrow> Inr (Some (JObj p))
          | Some e \<Rightarrow> Inl e)"
proof -
  have l: "last_run_section (JObj p) = ([], None)"
    using assms(4) by (auto simp: last_run_section_def skip_def)
  show ?thesis
    by (simp add: l details_fst [where http = http, OF assms(1,2,3)]
        details_snd [where http = http, OF assms(1,2,3)] report_obj del: shown.simps)
qed

text \<open>An empty \<open>lastResult\<close> and two runs in the history.\<close>

theorem absent_last_result_skips_section_witness:
  "get_indexer_status_details example_settings (reply (ok_response empty_last_result_payload)) ''ix'' =
     ([nl # ''=== Indexer: ix ==='',
       ''Status: running'',
       nl # ''=== Recent Execution ==='',
       ''Status: success''],
      Inr (Some empty_last_result_payload))"
proof -
  let ?h = "JArr [JObj [(''status'', JStr ''success'')], JObj [(''status'', JStr ''reset'')]]"
  let ?p = "[(''status'', JStr ''running''), (''lastResult'', JObj []), (''executionHistory'', ?h)]"
  have h1: "reply (ok_response empty_last_result_payload) (status_request example_settings ''ix'') =
      Inr (ok_response empty_last_result_payload)"
    by (simp add: reply_def)
  have h2: "status_code (ok_response empty_last_result_payload) = 200"
    by (simp add: ok_response_def)
  have h3: "resp_json (ok_response empty_last_result_payload) = Some (JObj ?p)"
    by (simp add: ok_response_def empty_last_result_payload_def)
  have h4: "map_of ?p ''lastResult'' = None \<or> map_of ?p ''lastResult'' = Some (JObj [])"
    by simp
  have hist: "history_section (JObj ?p) = ([nl # ''=== Recent Execution ==='', ''Status: success''], None)"
    by (simp add: history_section_def py_print_def skip_def)
  note t = absent_last_result_skips_section [where http = "reply (ok_response empty_last_result_payload)"
      and config = example_settings and name = "''ix''", OF h1 h2 h3 h4]
  show ?thesis
    using t by (simp add: hist prod_eq_iff empty_last_result_payload_def)
qed

subsection \<open>The sections of the index script\<close>

lemma check_index_seq:
  "check_index env http =
     seq (stats_section env http) (seq (sample_section env http) (vector_section env http))"
  by (simp add: check_index_def)

lemma stats_section_failed:
  assumes "http (stats_request env) = Inr r" and "status_code r \<noteq> 200"
  shows "stats_section env http =
     ([''=== Index Statistics for '' @ INDEX_NAME @ '' ==='' @ [nl],
       ''Error getting stats: '' @ dec_int (status_code r),
       resp_text r], Some (Exit 1))"
  using assms by (simp add: stats_section_def py_exit_def)

lemma stats_section_obj:
  assumes "http (stats_request env) = Inr r" and "status_code r = 200"
    and "resp_json r = Some (JObj st)"
  shows "stats_section env http =
     ([''=== Index Statistics for '' @ INDEX_NAME @ '' ==='' @ [nl],
       ''Document Count: '' @ shown (JObj st) ''documentCount'' ''0'',
       ''Storage Size: '' @ shown (JObj st) ''storageSize'' ''0'' @ '' bytes'',
       ''Vector Index Size: '' @ shown (JObj st) ''vectorIndexSize'' ''0'' @ '' bytes'',
       []], None)"
  using assms
  by (simp add: stats_section_def json_of_def py_print_def shown_get dec_int_0 del: shown.simps)

lemma sample_section_failed:
  assumes "http (search_request env) = Inr r" and "status_code r \<noteq> 200"
  shows "sample_section env http =
     ([''=== Sample Documents ==='' @ [nl],
       ''Error searching: '' @ dec_int (status_code r),
       resp_text r], None)"
  using assms by (simp add: sample_section_def py_print_def)

lemma vector_section_failed:
  assumes "http (vector_request env) = Inr r" and "status_code r \<noteq> 200"
  shows "vector_section env http =
     ([nl # ''=== Vector Search Test ==='' @ [nl],
       cross_mark @ '' Error with vector search: '' @ dec_int (status_code r),
       resp_text r], None)"
  using assms by (simp add: vector_section_def py_print_def)

text \<open>Only \<^verbatim>\<open>exit\<close> ends a run with \<open>Exit\<close>, and only the statistics section calls it.\<close>

lemma seq_no_exit:
  "snd a \<noteq> Some (Exit n) \<Longrightarrow> snd b \<noteq> Some (Exit n) \<Longrightarrow> snd (seq a b) \<noteq> Some (Exit n)"
  by (simp add: snd_seq)

lemma with_val_no_exit:
  "(\<And>v. snd (f v) \<noteq> Some (Exit n)) \<Longrightarrow> snd (with_val r f) \<noteq> Some (Exit n)"
  by (cases r) (simp_all add: py_raise_def)

lemma print_no_exit [simp]: "snd (py_print s) \<noteq> Some (Exit n)"
  by (simp add: py_print_def)

lemma skip_no_exit [simp]: "snd skip \<noteq> Some (Exit n)"
  by (simp add: skip_def)

lemma for_each_no_exit:
  "(\<And>j x. snd (body j x) \<noteq> Some (Exit n)) \<Longrightarrow> snd (for_each body i xs) \<noteq> Some (Exit n)"
  by (induction xs arbitrary: i) (simp_all add: seq_no_exit)

lemma print_fields_done [simp]: "snd (print_fields fs) = None"
  by (induction fs rule: print_fields.induct) (simp_all add: skip_def snd_seq py_print_def)

lemma print_document_no_exit: "snd (print_document i doc) \<noteq> Some (Exit n)"
  unfolding print_document_def block.simps
  by (intro seq_no_exit with_val_no_exit) simp_all

lemma print_result_no_exit: "snd (print_result i doc) \<noteq> Some (Exit n)"
  unfolding print_result_def block.simps
  by (intro seq_no_exit with_val_no_exit) simp_all

lemma sample_section_no_exit: "snd (sample_section env http) \<noteq> Some (Exit n)"
  unfolding sample_section_def block.simps
  by (intro seq_no_exit with_val_no_exit for_each_no_exit print_document_no_exit)
     (simp_all add: snd_seq with_val_no_exit for_each_no_exit print_document_no_exit)

lemma vector_section_no_exit: "snd (vector_section env http) \<noteq> Some (Exit n)"
  unfolding vector_section_def block.simps
  by (intro seq_no_exit with_val_no_exit for_each_no_exit print_result_no_exit)
     (simp_all add: snd_seq with_val_no_exit for_each_no_exit print_result_no_exit)

lemma stats_section_exit:
  "snd (stats_section env http) = Some (Exit n) \<longleftrightarrow>
     n = 1 \<and> (\<exists>r. http (stats_request env) = Inr r \<and> status_code r \<noteq> 200)"
proof (cases "http (stats_request env)")
  case (Inl e)
  then show ?thesis by (simp add: stats_section_def py_raise_def)
next
  case (Inr r)
  show ?thesis
  proof (cases "status_code r = 200")
    case False
    with Inr show ?thesis
      by (auto simp: stats_section_failed)
  next
    case True
    have "snd (with_val (json_of r) (\<lambda>stats.
             block
              [with_val (py_get stats ''documentCount'' (JInt 0))
                 (\<lambda>v. py_print (''Document Count: '' @ py_str v)),
               with_val (py_get stats ''storageSize'' (JInt 0))
                 (\<lambda>v. py_print (''Storage Size: '' @ py_str v @ '' bytes'')),
               with_val (py_get stats ''vectorIndexSize'' (JInt 0))
                 (\<lambda>v. py_print (''Vector Index Size: '' @ py_str v @ '' bytes'')),
               py_print []])) \<noteq> Some (Exit n)"
      unfolding block.simps
      by (intro seq_no_exit with_val_no_exit) simp_all
    with Inr True show ?thesis
      by (simp add: stats_section_def)
  qed
qed

subsection \<open>The statistics\<close>

text \<open>
  Claim C8. On a 200 response to the statistics request whose payload is a dictionary,
  the first five printed lines are the heading, the three statistics and an empty line;
  each statistic shows the text of the value of its field (\<open>documentCount\<close>,
  \<open>storageSize\<close>, \<open>vectorIndexSize\<close>) when the field is present and \<open>0\<close> when it is
  absent.
\<close>

theorem stats_fields_default_to_zero:
  assumes "http (stats_request env) = Inr r"
    and "status_code r = 200"
    and "resp_json r = Some (JObj st)"
  shows "take 5 (fst (check_index env http)) =
     [''=== Index Statistics for '' @ INDEX_NAME @ '' ==='' @ [nl],
      ''Document Count: '' @ (case map_of st ''documentCount'' of Some v \<Rightarrow> py_str v | None \<Rightarrow> ''0''),
      ''Storage Size: '' @ (case map_of st ''storageSize'' of Some v \<Rightarrow> py_str v | None \<Rightarrow> ''0'')
         @ '' bytes'',
      ''Vector Index Size: '' @ (case map_of st ''vectorIndexSize'' of Some v \<Rightarrow> py_str v | None \<Rightarrow> ''0'')
         @ '' bytes'',
      []]"
  by (simp add: check_index_seq stats_section_obj [where http = http, OF assms])

text \<open>The three fields present; and a payload with \<open>documentCount\<close> alone.\<close>

theorem stats_fields_default_to_zero_witness:
  "take 5 (fst (check_index example_env (reply (ok_response full_stats_payload)))) =
     [''=== Index Statistics for idx-score-operatorsupport ==='' @ [nl],
      ''Document Count: 42'',
      ''Storage Size: 1000 bytes'',
      ''Vector Index Size: 200 bytes'',
      []]
   \<and> take 5 (fst (check_index example_env (reply (ok_response (JObj [(''documentCount'', JInt 7)]))))) =
     [''=== Index Statistics for idx-score-operatorsupport ==='' @ [nl],
      ''Document Count: 7'',
      ''Storage Size: 0 bytes'',
      ''Vector Index Size: 0 bytes'',
      []]"
proof -
  let ?st = "[(''documentCount'', JInt 42), (''storageSize'', JInt 1000), (''vectorIndexSize'', JInt 200)]"
  let ?st1 = "[(''documentCount'', JInt 7)]"
  have h1: "reply (ok_response full_stats_payload) (stats_request example_env) =
      Inr (ok_response full_stats_payload)"
    by (simp add: reply_def)
  have h2: "status_code (ok_response full_stats_payload) = 200"
    by (simp add: ok_response_def)
  have h3: "resp_json (ok_response full_stats_payload) = Some (JObj ?st)"
    by (simp add: ok_response_def full_stats_payload_def)
  have k1: "reply (ok_response (JObj ?st1)) (stats_request example_env) = Inr (ok_response (JObj ?st1))"
    by (simp add: reply_def)
  have k2: "status_code (ok_response (JObj ?st1)) = 200"
    by (simp add: ok_response_def)
  have k3: "resp_json (ok_response (JObj ?st1)) = Some (JObj ?st1)"
    by (simp add: ok_response_def)
  note a = stats_fields_default_to_zero [where http = "reply (ok_response full_stats_payload)", OF h1 h2 h3]
  note b = stats_fields_default_to_zero [where http = "reply (ok_response (JObj ?st1))", OF k1 k2 k3]
  show ?thesis
    using a b by (simp add: INDEX_NAME_def dec_int_def dec_nat.simps digit_char_def)
qed

subsection \<open>Failed requests\<close>

text \<open>
  Claim C3. A response to the statistics request with a status other than 200 makes the
  script print the heading, the status code and the raw body, nothing more, and exit with
  status 1. After statistics that completed, a failed sample search prints its status
  code and raw body and the vector section runs after it; after statistics and samples
  that completed, a failed vector search prints its status code and raw body and the
  script ends normally. The script ends by \<^verbatim>\<open>exit\<close> only after a failed statistics
  request, and a run that no exception ends has a non-zero exit status in that case only.
\<close>

theorem failures_policy:
  "(\<forall>r. http (stats_request env) = Inr r \<and> status_code r \<noteq> 200 \<longrightarrow>
       check_index env http =
         ([''=== Index Statistics for '' @ INDEX_NAME @ '' ==='' @ [nl],
           ''Error getting stats: '' @ dec_int (status_code r),
           resp_text r], Some (Exit 1))
       \<and> exit_status (check_index env http) = 1)
   \<and> (\<forall>r. snd (stats_section env http) = None \<and>
          http (search_request env) = Inr r \<and> status_code r \<noteq> 200 \<longrightarrow>
       check_index env http =
         (fst (stats_section env http)
          @ [''=== Sample Documents ==='' @ [nl],
             ''Error searching: '' @ dec_int (status_code r),
             resp_text r]
          @ fst (vector_section env http), snd (vector_section env http)))
   \<and> (\<forall>r. snd (stats_section env http) = None \<and> snd (sample_section env http) = None \<and>
          http (vector_request env) = Inr r \<and> status_code r \<noteq> 200 \<longrightarrow>
       check_index env http =
         (fst (stats_section env http) @ fst (sample_section env http)
          @ [nl # ''=== Vector Search Test ==='' @ [nl],
             cross_mark @ '' Error with vector search: '' @ dec_int (status_code r),
             resp_text r], None)
       \<and> exit_status (check_index env http) = 0)
   \<and> (\<forall>n. snd (check_index env http) = Some (Exit n) \<longleftrightarrow>
          n = 1 \<and> (\<exists>r. http (stats_request env) = Inr r \<and> status_code r \<noteq> 200))
   \<and> ((\<forall>e. snd (check_index env http) \<noteq> Some (Raised e)) \<longrightarrow>
        (exit_status (check_index env http) \<noteq> 0 \<longleftrightarrow>
           (\<exists>r. http (stats_request env) = Inr r \<and> status_code r \<noteq> 200)))"
proof -
  have p1: "check_index env http =
         ([''=== Index Statistics for '' @ INDEX_NAME @ '' ==='' @ [nl],
           ''Error getting stats: '' @ dec_int (status_code r),
           resp_text r], Some (Exit 1))
       \<and> exit_status (check_index env http) = 1"
    if "http (stats_request env) = Inr r" and "status_code r \<noteq> 200" for r
    by (simp add: check_index_seq stats_section_failed [where http = http, OF that] exit_status_def)
  have p2: "check_index env http =
         (fst (stats_section env http)
          @ [''=== Sample Documents ==='' @ [nl],
             ''Error searching: '' @ dec_int (status_code r),
             resp_text r]
          @ fst (vector_section env http), snd (vector_section env http))"
    if "snd (stats_section env http) = None" and "http (search_request env) = Inr r"
      and "status_code r \<noteq> 200" for r
    using that(1)
    by (simp add: check_index_seq sample_section_failed [where http = http, OF that(2,3)] seq_def)
  have p3: "check_index env http =
         (fst (stats_section env http) @ fst (sample_section env http)
          @ [nl # ''=== Vector Search Test ==='' @ [nl],
             cross_mark @ '' Error with vector search: '' @ dec_int (status_code r),
             resp_text r], None)
       \<and> exit_status (check_index env http) = 0"
    if "snd (stats_section env http) = None" and "snd (sample_section env http) = None"
      and "http (vector_request env) = Inr r" and "status_code r \<noteq> 200" for r
    using that(1,2)
    by (simp add: check_index_seq vector_section_failed [where http = http, OF that(3,4)] seq_def exit_status_def)
  have p4: "snd (check_index env http) = Some (Exit n) \<longleftrightarrow>
          n = 1 \<and> (\<exists>r. http (stats_request env) = Inr r \<and> status_code r \<noteq> 200)" for n
    using sample_section_no_exit [of env http n] vector_section_no_exit [of env http n]
      stats_section_exit [of env http n]
    by (auto simp: check_index_seq snd_seq)
  have p5: "exit_status (check_index env http) \<noteq> 0 \<longleftrightarrow>
           (\<exists>r. http (stats_request env) = Inr r \<and> status_code r \<noteq> 200)"
    if "\<forall>e. snd (check_index env http) \<noteq> Some (Raised e)"
  proof (cases "snd (check_index env http)")
    case None
    with p4 [of 1] show ?thesis
      by (auto simp: exit_status_def)
  next
    case (Some s)
    with that obtain n where n: "snd (check_index env http) = Some (Exit n)"
      by (cases s) auto
    with p4 [of n] show ?thesis
      by (auto simp: exit_status_def)
  qed
  show ?thesis
    using p1 p2 p3 p4 p5 by blast
qed

text \<open>
  A 404 to the statistics request; and statistics that succeed while both searches fail.
\<close>

theorem failures_policy_witness:
  "check_index example_env
      (routed (failed_response 404 ''Not Found'') (ok_response (JObj [])) (ok_response (JObj []))) =
     ([''=== Index Statistics for idx-score-operatorsupport ==='' @ [nl],
       ''Error getting stats: 404'',
       ''Not Found''], Some (Exit 1))
   \<and> check_index example_env
      (routed (ok_response full_stats_payload) (failed_response 503 ''Busy'') (failed_response 500 ''Down'')) =
     ([''=== Index Statistics for idx-score-operatorsupport ==='' @ [nl],
       ''Document Count: 42'',
       ''Storage Size: 1000 bytes'',
       ''Vector Index Size: 200 bytes'',
       [],
       ''=== Sample Documents ==='' @ [nl],
       ''Error searching: 503'',
       ''Busy'',
       nl # ''=== Vector Search Test ==='' @ [nl],
       cross_mark @ '' Error with vector search: 500'',
       ''Down''], None)
   \<and> exit_status (check_index example_env
      (routed (ok_response full_stats_payload) (failed_response 503 ''Busy'') (failed_response 500 ''Down''))) = 0"
proof -
  let ?A = "routed (failed_response 404 ''Not Found'') (ok_response (JObj [])) (ok_response (JObj []))"
  let ?B = "routed (ok_response full_stats_payload) (failed_response 503 ''Busy'') (failed_response 500 ''Down'')"
  have a1: "?A (stats_request example_env) = Inr (failed_response 404 ''Not Found'')
      \<and> status_code (failed_response 404 ''Not Found'') \<noteq> 200"
    by (simp add: routed_def stats_request_def failed_response_def)
  have st: "stats_section example_env ?B =
     ([''=== Index Statistics for idx-score-operatorsupport ==='' @ [nl],
       ''Document Count: 42'',
       ''Storage Size: 1000 bytes'',
       ''Vector Index Size: 200 bytes'',
       []], None)"
    by (simp add: stats_section_def routed_def stats_request_def ok_response_def json_of_def
        full_stats_payload_def py_print_def INDEX_NAME_def dec_int_def dec_nat.simps digit_char_def)
  have vs: "vector_section example_env ?B =
     ([nl # ''=== Vector Search Test ==='' @ [nl],
       cross_mark @ '' Error with vector search: 500'',
       ''Down''], None)"
    by (simp add: vector_section_def routed_def vector_request_def failed_response_def
        search_body_def vector_search_body_def py_print_def dec_int_def dec_nat.simps digit_char_def)
  have b0: "snd (stats_section example_env ?B) = None"
    by (simp add: st)
  have b1: "?B (search_request example_env) = Inr (failed_response 503 ''Busy'')
      \<and> status_code (failed_response 503 ''Busy'') \<noteq> 200"
    by (simp add: routed_def search_request_def failed_response_def)
  note t1 = failures_policy [where http = ?A and env = example_env]
  note t2 = failures_policy [where http = ?B and env = example_env]
  have c1: "check_index example_env ?A =
     ([''=== Index Statistics for idx-score-operatorsupport ==='' @ [nl],
       ''Error getting stats: 404'',
       ''Not Found''], Some (Exit 1))"
    using t1 a1
    by (simp add: failed_response_def INDEX_NAME_def dec_int_def dec_nat.simps digit_char_def)
  have c2: "check_index example_env ?B =
     (fst (stats_section example_env ?B)
          @ [''=== Sample Documents ==='' @ [nl],
             ''Error searching: '' @ dec_int (status_code (failed_response 503 ''Busy'')),
             resp_text (failed_response 503 ''Busy'')]
          @ fst (vector_section example_env ?B), snd (vector_section example_env ?B))"
    using t2 b0 b1 by blast
  have c3: "check_index example_env ?B =
     ([''=== Index Statistics for idx-score-operatorsupport ==='' @ [nl],
       ''Document Count: 42'',
       ''Storage Size: 1000 bytes'',
       ''Vector Index Size: 200 bytes'',
       [],
       ''=== Sample Documents ==='' @ [nl],
       ''Error searching: 503'',
       ''Busy'',
       nl # ''=== Vector Search Test ==='' @ [nl],
       cross_mark @ '' Error with vector search: 500'',
       ''Down''], None)"
    unfolding c2 st vs
    by (simp add: failed_response_def dec_int_def dec_nat.simps digit_char_def)
  show ?thesis
    using c1 c3 by (simp add: exit_status_def)
qed

subsection \<open>The sample documents\<close>

lemma dec_int_nat: "dec_int (int n) = dec_nat n"
  by (simp add: dec_int_def)

lemma sample_section_obj:
  assumes "http (search_request env) = Inr r" and "status_code r = 200"
    and "resp_json r = Some (JObj res)"
    and "py_get (JObj res) ''value'' (JArr []) = Inr (JArr docs)"
  shows "sample_section env http =
     seq ([''=== Sample Documents ==='' @ [nl],
           ''Total documents in search: '' @
             (case map_of res ''@odata.count'' of
                Some c \<Rightarrow> if truthy c then py_str c else dec_nat (length docs)
              | None \<Rightarrow> dec_nat (length docs)) @ [nl]], None)
         (for_each print_document 1 docs)"
proof -
  have v: "(case map_of res ''value'' of None \<Rightarrow> JArr [] | Some v \<Rightarrow> v) = JArr docs"
    using assms(4) by simp
  show ?thesis
    using assms(1,2,3)
    by (simp add: sample_section_def json_of_def doc_count_def v py_print_def dec_int_nat
        split: option.split)
qed

lemma print_document_obj:
  "print_document i (JObj fs) =
     ([''Document '' @ dec_nat i @ '':'',
       ''  Available fields: '' @ py_str (JArr (map JStr (map fst fs))),
       []] @ fst (print_fields fs) @ [[]], None)"
proof -
  have "print_fields fs = (fst (print_fields fs), None)"
    by (simp add: prod_eq_iff)
  then have "seq (print_fields fs) (py_print []) = (fst (print_fields fs) @ [[]], None)"
    by (simp add: seq_def py_print_def)
  then show ?thesis
    by (simp add: print_document_def py_print_def del: py_str.simps)
qed

text \<open>
  Claim C4, as stated, fails: a reported total of 0 is not printed; the script prints the
  number of documents returned, here 1.
\<close>

theorem zero_count_not_printed_counterexample:
  "fst (check_index example_env
      (routed (ok_response full_stats_payload) (ok_response zero_count_results)
         (failed_response 500 ''Down''))) ! 6 = ''Total documents in search: 1'' @ [nl]
   \<and> (''Total documents in search: 0'' @ [nl]) \<notin> set (fst (check_index example_env
      (routed (ok_response full_stats_payload) (ok_response zero_count_results)
         (failed_response 500 ''Down''))))"
proof -
  have "check_index example_env
      (routed (ok_response full_stats_payload) (ok_response zero_count_results)
         (failed_response 500 ''Down'')) =
     ([''=== Index Statistics for idx-score-operatorsupport ==='' @ [nl],
       ''Document Count: 42'',
       ''Storage Size: 1000 bytes'',
       ''Vector Index Size: 200 bytes'',
       [],
       ''=== Sample Documents ==='' @ [nl],
       ''Total documents in search: 1'' @ [nl],
       ''Document 1:'',
       ''  Available fields: []'',
       [],
       [],
       nl # ''=== Vector Search Test ==='' @ [nl],
       cross_mark @ '' Error with vector search: 500'',
       ''Down''], None)"
    by (simp add: check_index_def stats_section_def sample_section_def vector_section_def
        routed_def stats_request_def search_request_def vector_request_def search_body_def
        vector_search_body_def ok_response_def failed_response_def json_of_def
        full_stats_payload_def zero_count_results_def doc_count_def print_document_def
        py_print_def skip_def INDEX_NAME_def dec_int_def dec_nat.simps digit_char_def)
  then show ?thesis
    by (simp add: nl_def cross_mark_def)
qed

text \<open>
  Claim C4, amended. After statistics that completed, on a 200 response to the sample
  search whose payload is a dictionary with a list \<open>docs\<close> as \<open>value\<close> (the empty list when
  the key is absent), the line after the heading of the section shows the value of
  \<open>@odata.count\<close> when that field is present and true in Python's sense (not 0, not
  \<^verbatim>\<open>None\<close>, not empty), and the length of \<open>docs\<close> when the field is absent or not true.
\<close>

theorem total_count_prefers_true_server_count:
  assumes "snd (stats_section env http) = None"
    and "http (search_request env) = Inr r"
    and "status_code r = 200"
    and "resp_json r = Some (JObj res)"
    and "py_get (JObj res) ''value'' (JArr []) = Inr (JArr docs)"
  shows "fst (check_index env http) ! (length (fst (stats_section env http)) + 1) =
     ''Total documents in search: '' @
       (case map_of res ''@odata.count'' of
          Some c \<Rightarrow> if truthy c then py_str c else dec_nat (length docs)
        | None \<Rightarrow> dec_nat (length docs)) @ [nl]"
  using assms(1)
  by (simp add: check_index_seq fst_seq nth_append
      sample_section_obj [where http = http, OF assms(2,3,4,5)] del: py_get.simps)

text \<open>A total of 0 beside one document: 1 is shown. A total of 1: the total is shown.\<close>

theorem total_count_prefers_true_server_count_witness:
  "fst (check_index example_env
      (routed (ok_response full_stats_payload) (ok_response zero_count_results)
         (failed_response 500 ''Down''))) ! 6 = ''Total documents in search: 1'' @ [nl]
   \<and> fst (check_index example_env
      (routed (ok_response full_stats_payload)
         (ok_response (JObj [(''@odata.count'', JInt 57), (''value'', JArr [])]))
         (failed_response 500 ''Down''))) ! 6 = ''Total documents in search: 57'' @ [nl]"
proof -
  let ?A = "routed (ok_response full_stats_payload) (ok_response zero_count_results)
         (failed_response 500 ''Down'')"
  let ?resB = "[(''@odata.count'', JInt 57), (''value'', JArr [])]"
  let ?B = "routed (ok_response full_stats_payload) (ok_response (JObj ?resB))
         (failed_response 500 ''Down'')"
  have st: "stats_section example_env (routed (ok_response full_stats_payload) b c) =
     ([''=== Index Statistics for idx-score-operatorsupport ==='' @ [nl],
       ''Document Count: 42'',
       ''Storage Size: 1000 bytes'',
       ''Vector Index Size: 200 bytes'',
       []], None)" for b c
    by (simp add: stats_section_def routed_def stats_request_def ok_response_def json_of_def
        full_stats_payload_def py_print_def INDEX_NAME_def dec_int_def dec_nat.simps digit_char_def)
  have a1: "snd (stats_section example_env ?A) = None" by (simp add: st)
  have a2: "?A (search_request example_env) = Inr (ok_response zero_count_results)"
    by (simp add: routed_def search_request_def)
  have a3: "status_code (ok_response zero_count_results) = 200" by (simp add: ok_response_def)
  have a4: "resp_json (ok_response zero_count_results) =
      Some (JObj [(''@odata.count'', JInt 0), (''value'', JArr [JObj []])])"
    by (simp add: ok_response_def zero_count_results_def)
  have a5: "py_get (JObj [(''@odata.count'', JInt 0), (''value'', JArr [JObj []])]) ''value'' (JArr []) =
      Inr (JArr [JObj []])"
    by simp
  have b1: "snd (stats_section example_env ?B) = None" by (simp add: st)
  have b2: "?B (search_request example_env) = Inr (ok_response (JObj ?resB))"
    by (simp add: routed_def search_request_def)
  have b3: "status_code (ok_response (JObj ?resB)) = 200" by (simp add: ok_response_def)
  have b4: "resp_json (ok_response (JObj ?resB)) = Some (JObj ?resB)"
    by (simp add: ok_response_def)
  have b5: "py_get (JObj ?resB) ''value'' (JArr []) = Inr (JArr [])"
    by simp
  note ta = total_count_prefers_true_server_count [where http = ?A and env = example_env,
      OF a1 a2 a3 a4 a5]
  note tb = total_count_prefers_true_server_count [where http = ?B and env = example_env,
      OF b1 b2 b3 b4 b5]
  have six_a: "length (fst (stats_section example_env ?A)) + 1 = 6" by (simp add: st)
  have six_b: "length (fst (stats_section example_env ?B)) + 1 = 6" by (simp add: st)
  have ca: "fst (check_index example_env ?A) ! 6 = ''Total documents in search: 1'' @ [nl]"
    using ta [unfolded six_a] by (simp add: dec_nat.simps digit_char_def)
  have cb: "fst (check_index example_env ?B) ! 6 = ''Total documents in search: 57'' @ [nl]"
    using tb [unfolded six_b] by (simp add: dec_int_def dec_nat.simps digit_char_def)
  show ?thesis
    using ca cb by simp
qed

subsection \<open>Payloads on which the report completes\<close>

lemma for_each_objs_done:
  assumes "list_all is_obj (take n xs)"
    and "\<And>j kvs. snd (body j (JObj kvs)) = None"
  shows "snd (for_each body i (take n xs)) = None"
proof -
  have objs: "\<forall>x \<in> set (take n xs). is_obj x"
    using assms(1) by (simp add: list_all_iff)
  have "for_each body i (take n xs) =
     (concat (map (\<lambda>j. (\<lambda>k x. fst (body k x)) (i + j) (xs ! j)) [0..<min (length xs) n]), None)"
    using objs
  proof (rule for_each_objs)
    fix j kvs
    show "body j (JObj kvs) = (fst (body j (JObj kvs)), None)"
      using assms(2) [of j kvs] by (simp add: prod_eq_iff)
  qed
  then show ?thesis by simp
qed

lemma errors_block_ok:
  assumes "entries_ok 10 (field_or lr ''errors'' (JArr []))"
  shows "snd (errors_block (JObj lr)) = None"
proof (cases "field_or lr ''errors'' (JArr [])")
  case (JArr es)
  then have v: "(case map_of lr ''errors'' of None \<Rightarrow> JArr [] | Some v \<Rightarrow> v) = JArr es"
    by (simp add: field_or_def)
  have "snd (for_each print_error (Suc 0) (take 10 es)) = None"
    using assms JArr by (intro for_each_objs_done) (simp_all add: print_error_obj)
  then show ?thesis
    by (simp add: errors_block_def v snd_seq skip_def py_print_def)
qed (use assms in \<open>simp_all add: errors_block_def field_or_def skip_def\<close>)

lemma warnings_block_ok:
  assumes "entries_ok 20 (field_or lr ''warnings'' (JArr []))"
  shows "snd (warnings_block (JObj lr)) = None"
proof (cases "field_or lr ''warnings'' (JArr [])")
  case (JArr ws)
  then have v: "(case map_of lr ''warnings'' of None \<Rightarrow> JArr [] | Some v \<Rightarrow> v) = JArr ws"
    by (simp add: field_or_def)
  have "snd (for_each print_warning (Suc 0) (take 20 ws)) = None"
    using assms JArr by (intro for_each_objs_done) (simp_all add: print_warning_obj)
  then show ?thesis
    by (simp add: warnings_block_def v snd_seq skip_def py_print_def)
qed (use assms in \<open>simp_all add: warnings_block_def field_or_def skip_def\<close>)

lemma last_run_section_ok:
  assumes "last_result_ok (field_or p ''lastResult'' (JObj []))"
  shows "snd (last_run_section (JObj p)) = None"
proof (cases "field_or p ''lastResult'' (JObj [])")
  case (JObj lr)
  then have v: "(case map_of p ''lastResult'' of None \<Rightarrow> JObj [] | Some v \<Rightarrow> v) = JObj lr"
    by (simp add: field_or_def)
  have "snd (errors_block (JObj lr)) = None" and "snd (warnings_block (JObj lr)) = None"
    using assms JObj by (simp_all add: errors_block_ok warnings_block_ok)
  then show ?thesis
    by (simp add: last_run_section_def v snd_seq skip_def py_print_def)
qed (use assms in \<open>simp_all add: last_run_section_def field_or_def skip_def\<close>)

lemma recent_block_ok:
  assumes "entries_ok 5 (field_or e ''warnings'' (JArr []))"
  shows "snd (with_val (py_get (JObj e) ''warnings'' (JArr [])) (\<lambda>warnings.
           if truthy warnings then
             block
              [with_val (py_len warnings)
                 (\<lambda>n. py_print (''Warnings in this run: '' @ dec_nat n)),
               with_val (py_slice warnings 5)
                 (\<lambda>s. with_val (py_iter s) (for_each print_recent_warning 1))]
           else skip)) = None"
proof (cases "field_or e ''warnings'' (JArr [])")
  case (JArr ws)
  then have v: "(case map_of e ''warnings'' of None \<Rightarrow> JArr [] | Some v \<Rightarrow> v) = JArr ws"
    by (simp add: field_or_def)
  have "snd (for_each print_recent_warning (Suc 0) (take 5 ws)) = None"
    using assms JArr by (intro for_each_objs_done) (simp_all add: print_recent_warning_obj)
  then show ?thesis
    by (simp add: v snd_seq skip_def py_print_def)
qed (use assms in \<open>simp_all add: field_or_def skip_def\<close>)

lemma history_section_ok:
  assumes "history_ok (field_or p ''executionHistory'' (JArr []))"
  shows "snd (history_section (JObj p)) = None"
proof -
  define h where "h = field_or p ''executionHistory'' (JArr [])"
  have v: "(case map_of p ''executionHistory'' of None \<Rightarrow> JArr [] | Some v \<Rightarrow> v) = h"
    by (simp add: field_or_def h_def)
  have ok: "history_ok h"
    using assms by (simp add: h_def)
  have "snd (with_val (if truthy h
                 then (case py_len h of Inl e \<Rightarrow> Inl e | Inr n \<Rightarrow> Inr (1 < n))
                 else Inr False) (\<lambda>c.
         if c then
           block
            [py_print (nl # ''=== Recent Execution ===''),
             with_val (py_first h) (\<lambda>recent.
               block
                [with_val (py_get recent ''status'' JNull)
                   (\<lambda>s. py_print (''Status: '' @ py_str s)),
                 with_val (py_get recent ''warnings'' (JArr [])) (\<lambda>warnings.
                   if truthy warnings then
                     block
                      [with_val (py_len warnings)
                         (\<lambda>n. py_print (''Warnings in this run: '' @ dec_nat n)),
                       with_val (py_slice warnings 5)
                         (\<lambda>s. with_val (py_iter s) (for_each print_recent_warning 1))]
                   else skip)])]
         else skip)) = None"
    using ok
  proof (induction h rule: history_ok.induct)
    case (3 e y ys)
    then have "entries_ok 5 (field_or e ''warnings'' (JArr []))"
      by simp
    from recent_block_ok [OF this] show ?case
      by (simp add: snd_seq py_print_def)
  qed (simp_all add: skip_def)
  then show ?thesis
    by (simp add: history_section_def v)
qed

lemma report_ok:
  assumes "status_ok payload"
  shows "snd (report name payload) = None"
proof (cases payload)
  case (JObj p)
  with assms have "snd (last_run_section (JObj p)) = None" and "snd (history_section (JObj p)) = None"
    by (simp_all add: last_run_section_ok history_section_ok)
  with JObj show ?thesis
    by (simp add: report_obj snd_seq)
qed (use assms in simp_all)

subsection \<open>The value returned\<close>

text \<open>
  Claim C7. When the transport delivers a response \<open>r\<close>: the function returns \<^verbatim>\<open>None\<close>
  exactly when the status code of \<open>r\<close> is not 200, and then it has printed the status
  code and the raw body; on status 200 a value it returns is the parsed payload of \<open>r\<close>
  itself, and it does return the parsed payload, raising nothing, for every payload that
  is in order (a dictionary whose last run and execution history have the shape of the
  data model, or are absent).
\<close>

theorem returns_payload_or_none:
  assumes "http (status_request config name) = Inr r"
  shows "(snd (get_indexer_status_details config http name) = Inr None \<longleftrightarrow> status_code r \<noteq> 200)
     \<and> (status_code r \<noteq> 200 \<longrightarrow>
          fst (get_indexer_status_details config http name) =
            [''Error: '' @ dec_int (status_code r), resp_text r])
     \<and> (status_code r = 200 \<longrightarrow>
          (\<forall>v. snd (get_indexer_status_details config http name) = Inr v \<longrightarrow> v = resp_json r))
     \<and> (status_code r = 200 \<longrightarrow>
          (\<forall>payload. resp_json r = Some payload \<and> status_ok payload \<longrightarrow>
             snd (get_indexer_status_details config http name) = Inr (Some payload)))"
proof -
  have a: "(snd (get_indexer_status_details config http name) = Inr None \<longleftrightarrow> status_code r \<noteq> 200)
     \<and> (status_code r \<noteq> 200 \<longrightarrow>
          fst (get_indexer_status_details config http name) =
            [''Error: '' @ dec_int (status_code r), resp_text r])
     \<and> (status_code r = 200 \<longrightarrow>
          (\<forall>v. snd (get_indexer_status_details config http name) = Inr v \<longrightarrow> v = resp_json r))"
    using assms
    by (auto simp: get_indexer_status_details_def json_of_def split: option.splits prod.splits)
  have b: "snd (get_indexer_status_details config http name) = Inr (Some payload)"
    if "status_code r = 200" and "resp_json r = Some payload" and "status_ok payload" for payload
    by (simp add: details_snd [where http = http, OF assms that(1,2)] report_ok [OF that(3)])
  show ?thesis
    using a b by blast
qed

text \<open>A 404 response gives \<^verbatim>\<open>None\<close>; a 200 response gives its payload back.\<close>

theorem returns_payload_or_none_witness:
  "snd (get_indexer_status_details example_settings (reply (failed_response 404 ''Not Found'')) ''ix'') =
     Inr None
   \<and> fst (get_indexer_status_details example_settings (reply (failed_response 404 ''Not Found'')) ''ix'') =
     [''Error: 404'', ''Not Found'']
   \<and> snd (get_indexer_status_details example_settings (reply (ok_response bad_field_payload)) ''ix'') =
     Inr (Some bad_field_payload)
   \<and> snd (get_indexer_status_details example_settings (reply (ok_response two_runs_payload)) ''ix'') =
     Inr (Some two_runs_payload)"
proof -
  have h: "reply (failed_response 404 ''Not Found'') (status_request example_settings ''ix'') =
      Inr (failed_response 404 ''Not Found'')"
    by (simp add: reply_def)
  have k: "reply (ok_response bad_field_payload) (status_request example_settings ''ix'') =
      Inr (ok_response bad_field_payload)"
    by (simp add: reply_def)
  have m: "reply (ok_response two_runs_payload) (status_request example_settings ''ix'') =
      Inr (ok_response two_runs_payload)"
    by (simp add: reply_def)
  have ok1: "status_ok bad_field_payload"
    by (simp add: bad_field_payload_def field_or_def)
  have ok2: "status_ok two_runs_payload"
    by (simp add: two_runs_payload_def field_or_def)
  note a = returns_payload_or_none [where http = "reply (failed_response 404 ''Not Found'')"
      and config = example_settings and name = "''ix''", OF h]
  note b = returns_payload_or_none [where http = "reply (ok_response bad_field_payload)"
      and config = example_settings and name = "''ix''", OF k]
  note c = returns_payload_or_none [where http = "reply (ok_response two_runs_payload)"
      and config = example_settings and name = "''ix''", OF m]
  have c1: "snd (get_indexer_status_details example_settings
       (reply (failed_response 404 ''Not Found'')) ''ix'') = Inr None"
    using a by (simp add: failed_response_def)
  have c2: "fst (get_indexer_status_details example_settings
       (reply (failed_response 404 ''Not Found'')) ''ix'') = [''Error: 404'', ''Not Found'']"
    using a by (simp add: failed_response_def dec_int_def dec_nat.simps digit_char_def)
  have c3: "snd (get_indexer_status_details example_settings
       (reply (ok_response bad_field_payload)) ''ix'') = Inr (Some bad_field_payload)"
    using b ok1 by (simp add: ok_response_def)
  have c4: "snd (get_indexer_status_details example_settings
       (reply (ok_response two_runs_payload)) ''ix'') = Inr (Some two_runs_payload)"
    using c ok2 by (simp add: ok_response_def)
  show ?thesis
    using c1 c2 c3 c4 by simp
qed

subsection \<open>The lines of a document\<close>

lemma seq_assoc: "seq (seq a b) c = seq a (seq b c)"
  by (cases "snd a"; cases "snd b") (simp_all add: seq_def)

lemma for_each_append:
  "for_each body i (xs @ ys) = seq (for_each body i xs) (for_each body (i + length xs) ys)"
  by (induction xs arbitrary: i) (simp_all add: seq_assoc)

lemma print_fields_lines:
  "fst (print_fields fs) =
     map (\<lambda>kv. ''  '' @ fst kv @ '': '' @ display_value (snd kv))
       (filter (\<lambda>kv. \<not> startswith (fst kv) ''@'') fs)"
  by (induction fs rule: print_fields.induct) (simp_all add: fst_seq skip_def py_print_def)

lemma display_value_cases:
  "display_value v =
     (case v of
        JStr s \<Rightarrow> if 200 < length s then take 200 s @ ''...'' else s
      | _ \<Rightarrow> display_value v)"
  by (cases v) simp_all

lemma print_document_lines:
  "print_document j (JObj kvs) =
     ([''Document '' @ dec_nat j @ '':'',
       ''  Available fields: '' @ py_str (JArr (map JStr (map fst (fields (JObj kvs))))),
       []]
      @ map (\<lambda>kv. ''  '' @ fst kv @ '': '' @
               (case snd kv of
                  JStr s \<Rightarrow> if 200 < length s then take 200 s @ ''...'' else s
                | _ \<Rightarrow> display_value (snd kv)))
          (filter (\<lambda>kv. \<not> startswith (fst kv) ''@'') (fields (JObj kvs)))
      @ [[]], None)"
  by (simp add: print_document_obj print_fields_lines display_value_cases [symmetric]
      del: py_str.simps display_value.simps)

text \<open>
  Claim C5. After statistics that completed, on a 200 response to the sample search
  whose payload is a dictionary with a list \<open>docs\<close> as \<open>value\<close>, and for every \<open>n\<close> such
  that the first \<open>n\<close> documents are dictionaries: the script prints the statistics, the
  heading and the total, then for each of these \<open>n\<close> documents, in order, its number, the
  names of its fields, an empty line, one line for each field whose name does not start
  with \<open>@\<close> and an empty line, and then what the rest of the run prints. The line of a
  field whose value is a string \<open>s\<close> shows the first 200 characters of \<open>s\<close> followed by
  \<open>...\<close> when \<open>s\<close> has more than 200 characters, and \<open>s\<close> itself otherwise; no other line
  is printed for the field.
\<close>

theorem long_strings_cut_at_200:
  assumes "snd (stats_section env http) = None"
    and "http (search_request env) = Inr r"
    and "status_code r = 200"
    and "resp_json r = Some (JObj res)"
    and "map_of res ''value'' = Some (JArr docs)"
    and "n \<le> length docs"
    and "\<forall>d \<in> set (take n docs). is_obj d"
  shows "fst (check_index env http) =
     fst (stats_section env http)
     @ [''=== Sample Documents ==='' @ [nl],
        ''Total documents in search: '' @
          (case map_of res ''@odata.count'' of
             Some c \<Rightarrow> if truthy c then py_str c else dec_nat (length docs)
           | None \<Rightarrow> dec_nat (length docs)) @ [nl]]
     @ concat (map (\<lambda>i.
          [''Document '' @ dec_nat (Suc i) @ '':'',
           ''  Available fields: '' @ py_str (JArr (map JStr (map fst (fields (docs ! i))))),
           []]
          @ map (\<lambda>kv. ''  '' @ fst kv @ '': '' @
                   (case snd kv of
                      JStr s \<Rightarrow> if 200 < length s then take 200 s @ ''...'' else s
                    | _ \<Rightarrow> display_value (snd kv)))
              (filter (\<lambda>kv. \<not> startswith (fst kv) ''@'') (fields (docs ! i)))
          @ [[]]) [0..<n])
     @ fst (seq (for_each print_document (Suc n) (drop n docs)) (vector_section env http))"
proof -
  define block_of where "block_of = (\<lambda>j x.
          [''Document '' @ dec_nat j @ '':'',
           ''  Available fields: '' @ py_str (JArr (map JStr (map fst (fields x)))),
           []]
          @ map (\<lambda>kv. ''  '' @ fst kv @ '': '' @
                   (case snd kv of
                      JStr s \<Rightarrow> if 200 < length s then take 200 s @ ''...'' else s
                    | _ \<Rightarrow> display_value (snd kv)))
              (filter (\<lambda>kv. \<not> startswith (fst kv) ''@'') (fields x))
          @ [[]])"
  have v: "py_get (JObj res) ''value'' (JArr []) = Inr (JArr docs)"
    using assms(5) by simp
  have first: "for_each print_document (Suc 0) (take n docs) =
      (concat (map (\<lambda>j. block_of (Suc 0 + j) (docs ! j)) [0..<min (length docs) n]), None)"
    using assms(7)
  proof (rule for_each_objs)
    fix j kvs
    show "print_document j (JObj kvs) = (block_of j (JObj kvs), None)"
      unfolding block_of_def by (rule print_document_lines)
  qed
  have "for_each print_document (Suc 0) docs =
      for_each print_document (Suc 0) (take n docs @ drop n docs)"
    by simp
  also have "\<dots> = seq (for_each print_document (Suc 0) (take n docs))
      (for_each print_document (Suc 0 + length (take n docs)) (drop n docs))"
    by (rule for_each_append)
  finally have loop: "for_each print_document (Suc 0) docs =
      seq (concat (map (\<lambda>j. block_of (Suc j) (docs ! j)) [0..<n]), None)
        (for_each print_document (Suc n) (drop n docs))"
    using assms(6) by (simp add: first min_absorb2)
  have "fst (check_index env http) =
     fst (stats_section env http)
     @ [''=== Sample Documents ==='' @ [nl],
        ''Total documents in search: '' @
          (case map_of res ''@odata.count'' of
             Some c \<Rightarrow> if truthy c then py_str c else dec_nat (length docs)
           | None \<Rightarrow> dec_nat (length docs)) @ [nl]]
     @ concat (map (\<lambda>j. block_of (Suc j) (docs ! j)) [0..<n])
     @ fst (seq (for_each print_document (Suc n) (drop n docs)) (vector_section env http))"
    using assms(1)
    by (simp add: check_index_seq sample_section_obj [where http = http, OF assms(2,3,4) v]
        loop fst_seq snd_seq del: py_get.simps)
  then show ?thesis
    unfolding block_of_def .
qed

text \<open>
  One document with a metadata field, a string of 201 characters and a string of 5: the
  long string is cut to 200 and marked, the short one is shown whole, each on one line.
\<close>

theorem long_strings_cut_at_200_witness:
  "fst (check_index example_env
          (routed (ok_response full_stats_payload) (ok_response long_field_results)
             (failed_response 500 ''Down''))) =
     [''=== Index Statistics for idx-score-operatorsupport ==='' @ [nl],
      ''Document Count: 42'',
      ''Storage Size: 1000 bytes'',
      ''Vector Index Size: 200 bytes'',
      [],
      ''=== Sample Documents ==='' @ [nl],
      ''Total documents in search: 1'' @ [nl],
      ''Document 1:'',
      ''  Available fields: ['' @ [CHR 0x27] @ ''@search.score'' @ [CHR 0x27] @ '', ''
         @ [CHR 0x27] @ ''content'' @ [CHR 0x27] @ '', '' @ [CHR 0x27] @ ''title'' @ [CHR 0x27] @ '']'',
      [],
      ''  content: '' @ replicate 200 (CHR ''a'') @ ''...'',
      ''  title: Guide'',
      [],
      nl # ''=== Vector Search Test ==='' @ [nl],
      cross_mark @ '' Error with vector search: 500'',
      ''Down'']"
proof -
  let ?A = "routed (ok_response full_stats_payload) (ok_response long_field_results)
         (failed_response 500 ''Down'')"
  let ?fs = "[(''@search.score'', JInt 1),
              (''content'', JStr (replicate 201 (CHR ''a''))),
              (''title'', JStr ''Guide'')]"
  let ?res = "[(''@odata.count'', JInt 1), (''value'', JArr [JObj ?fs])]"
  have st: "stats_section example_env ?A =
     ([''=== Index Statistics for idx-score-operatorsupport ==='' @ [nl],
       ''Document Count: 42'',
       ''Storage Size: 1000 bytes'',
       ''Vector Index Size: 200 bytes'',
       []], None)"
    by (simp add: stats_section_def routed_def stats_request_def ok_response_def json_of_def
        full_stats_payload_def py_print_def INDEX_NAME_def dec_int_def dec_nat.simps digit_char_def)
  have vs: "vector_section example_env ?A =
     ([nl # ''=== Vector Search Test ==='' @ [nl],
       cross_mark @ '' Error with vector search: 500'',
       ''Down''], None)"
    by (simp add: vector_section_def routed_def vector_request_def failed_response_def
        search_body_def vector_search_body_def py_print_def dec_int_def dec_nat.simps digit_char_def)
  have a1: "snd (stats_section example_env ?A) = None"
    by (simp add: st)
  have a2: "?A (search_request example_env) = Inr (ok_response long_field_results)"
    by (simp add: routed_def search_request_def)
  have a3: "status_code (ok_response long_field_results) = 200" by (simp add: ok_response_def)
  have a4: "resp_json (ok_response long_field_results) = Some (JObj ?res)"
    by (simp add: ok_response_def long_field_results_def)
  have a5: "map_of ?res ''value'' = Some (JArr [JObj ?fs])" by simp
  have a6: "Suc 0 \<le> length [JObj ?fs]" by simp
  have a7: "\<forall>d \<in> set (take (Suc 0) [JObj ?fs]). is_obj d" by simp
  have keys: "py_str (JArr [JStr ''@search.score'', JStr ''content'', JStr ''title'']) =
      ''['' @ [CHR 0x27] @ ''@search.score'' @ [CHR 0x27] @ '', ''
         @ [CHR 0x27] @ ''content'' @ [CHR 0x27] @ '', '' @ [CHR 0x27] @ ''title'' @ [CHR 0x27] @ '']''"
    by (simp add: repr_str_def repr_char_def printable_def Let_def)
  have one: "py_str (JInt 1) = ''1''"
    by (simp add: dec_int_def dec_nat.simps digit_char_def)
  note t = long_strings_cut_at_200 [where http = ?A and env = example_env,
      OF a1 a2 a3 a4 a5 a6 a7]
  show ?thesis
    unfolding t st vs
    by (simp add: keys one startswith_def skip_def dec_int_def dec_nat.simps digit_char_def
        del: py_str.simps)
qed

end
